theory Spec2Isabelle
  imports Main "HOL-Library.Multiset"
begin

section \<open>The VolumeReplicationGroup reconciler\<close>

text \<open>
  A shallow embedding of \<^verbatim>\<open>controllers/volumereplicationgroup_controller.go\<close>:
  the per-reconcile structure \<^verbatim>\<open>VRGInstance\<close> is a record that every method
  takes and returns; whatever a method does to the outside world (a call of the API
  client, of the event recorder, of the logger, of a backend collaborator) is appended
  to the \<open>effects\<close> field of that record, in program order. Calls whose code lives in
  other files of the package are fields of the record \<open>env\<close>.
\<close>

subsection \<open>API types\<close>

text \<open>\<^verbatim>\<open>metav1.Time\<close>; the zero time is \<open>0\<close>, a nil pointer is \<open>None\<close>.\<close>

type_synonym Time = nat

fun IsZero :: "Time option \<Rightarrow> bool" where
  "IsZero None = True"
| "IsZero (Some t) = (t = 0)"

text \<open>
  Modelled from the spec: the API types of \<^verbatim>\<open>ramendrv1alpha1\<close> are declared outside the
  source file. The desired role is an enumeration of Primary and Secondary in which any
  other value can be written; the derived state is Primary, Secondary or Unknown, and
  starts as some other value (the empty string); each mode is enabled or not.
\<close>

datatype ReplicationState = Primary | Secondary | OtherReplicationState string

datatype State = PrimaryState | SecondaryState | UnknownState | OtherState string

datatype AsyncMode = AsyncModeEnabled | AsyncModeOther string

datatype SyncMode = SyncModeEnabled | SyncModeOther string

datatype ConditionStatus = ConditionTrue | ConditionFalse | ConditionUnknown

record Condition =
  condType :: string
  condStatus :: ConditionStatus
  condObservedGeneration :: int
  condLastTransitionTime :: Time
  condReason :: string
  condMessage :: string

record ProtectedPVC =
  ppName :: string
  ProtectedByVolSync :: bool

text \<open>A nil \<^verbatim>\<open>ProtectedPVCs\<close> slice is \<open>None\<close>: the code tests it for nil.\<close>

record VolumeReplicationGroupStatus =
  State :: State
  ProtectedPVCs :: "ProtectedPVC list option"
  Conditions :: "Condition list"
  ObservedGeneration :: int
  LastUpdateTime :: Time

record VolumeReplicationGroup =
  Name :: string
  Namespace :: string
  Generation :: int
  DeletionTimestamp :: "Time option"
  Finalizers :: "string list"
  Spec_ReplicationState :: ReplicationState
  Spec_Async_Mode :: AsyncMode
  Spec_Sync_Mode :: SyncMode
  Spec_VolSync_Disabled :: bool
  Status :: VolumeReplicationGroupStatus

text \<open>\<^verbatim>\<open>Spec.StorageClassName\<close> of a claim is a pointer: \<open>None\<close> is nil.\<close>

record PersistentVolumeClaim =
  pvcName :: string
  pvcNamespace :: string
  pvcStorageClassName :: "string option"

record StorageClass =
  sc_Name :: string
  scProvisioner :: string

record VolumeReplicationClass =
  vrcName :: string
  vrcProvisioner :: string

text \<open>\<^verbatim>\<open>ctrl.Result\<close>; \<open>RequeueAfter\<close> is a \<^verbatim>\<open>time.Duration\<close> in nanoseconds.\<close>

record Result =
  Requeue :: bool
  RequeueAfter :: int

definition Second :: int where
  "Second = 1000000000"

subsection \<open>Errors, panics and effects\<close>

text \<open>
  The errors the file builds with \<^verbatim>\<open>fmt.Errorf\<close>, one constructor per call site with
  the values it formats; \<open>ClientError\<close> is whatever the API client or a collaborator
  returned.
\<close>

datatype error =
    ClientError string
  | InvalidReplicationState bool ReplicationState
  | NeitherSyncNorAsync bool
  | FailedToListPVCs error
  | FailedToListReplicationClasses error
  | FailedToGetReplicationClassList
  | FailedToGetStorageClass string error
  | FailedToRemoveFinalizer string string error
  | FailedToAddFinalizer string string error
  | FailedToRestoreVolSync error
  | FailedToRestoreVolRep error
  | FailedToUpdateStatus string string
  | FailedToReconcile string error

text \<open>Dereferencing a nil \<^verbatim>\<open>StorageClassName\<close> stops the reconcile.\<close>

datatype panic = NilPointerDereference

text \<open>A message is a string literal, \<^verbatim>\<open>err.Error()\<close>, or a format applied to it.\<close>

datatype message = Text string | ErrorText error | Sprintf string error

datatype EventType = EventTypeNormal | EventTypeWarning

datatype EventReason =
    EventReasonValidationFailed
  | EventReasonDeleteSuccess
  | EventReasonPrimarySuccess
  | EventReasonSecondarySuccess

text \<open>
  What a reconcile does to the outside world. A log line keeps its message (the format
  string where the code formats one); a call of the API client keeps what was sent; a
  call of a collaborator keeps what came back.
\<close>

datatype effect =
    LogInfo string
  | LogError string
  | ReportIfNotPresent EventType EventReason message
  | ApiGet
  | ApiListPVCs
  | ApiListReplicationClasses
  | ApiGetStorageClass string
  | ApiUpdate VolumeReplicationGroup
  | ApiStatusUpdate VolumeReplicationGroup
  | CallReconcileVRsForDeletion bool
  | CallDeleteClusterDataInS3Stores "error option"
  | CallRestorePVsForVolSync "error option"
  | CallRestorePVsForVolRep "error option"
  | CallReconcileVolSyncAsPrimary bool
  | CallReconcileVolRepsAsPrimary bool
  | CallReconcileVolSyncAsSecondary bool
  | CallReconcileVolRepsAsSecondary bool

subsection \<open>The structure of one reconcile\<close>

text \<open>
  \<^verbatim>\<open>VRGInstance\<close>. The field \<^verbatim>\<open>instance\<close> is \<open>inst\<close> here; the logger, the
  context and the handles are left out, and \<open>effects\<close> is added.
\<close>

record VRGInstance =
  inst :: VolumeReplicationGroup
  savedInstanceStatus :: VolumeReplicationGroupStatus
  volRepPVCs :: "PersistentVolumeClaim list"
  volSyncPVCs :: "PersistentVolumeClaim list"
  replClassList :: "VolumeReplicationClass list"
  vrcUpdated :: bool
  namespacedName :: string
  effects :: "effect list"

datatype GetResult = Found VolumeReplicationGroup | NotFound error | GetFailed error

text \<open>
  The authoritative store, the clock and the collaborators. A collaborator that
  reconciles the per-volume resources sees the whole structure and gives back
  its verdict and the status of the group as it leaves it; it has no other way to change
  the group. The setters of conditions and the aggregators over the per-volume
  conditions are in other files of the package and are parameters too.
\<close>

record env =
  api_Get :: GetResult
  api_List_PVCs :: "VolumeReplicationGroup \<Rightarrow> error + PersistentVolumeClaim list"
  api_List_ReplicationClasses :: "VolumeReplicationGroup \<Rightarrow> error + VolumeReplicationClass list"
  api_Get_StorageClass :: "string \<Rightarrow> error + StorageClass"
  api_Update :: "VolumeReplicationGroup \<Rightarrow> error option"
  api_Status_Update :: "VolumeReplicationGroup \<Rightarrow> error option"
  Now :: Time
  reconcileVRsForDeletion :: "VRGInstance \<Rightarrow> bool \<times> VolumeReplicationGroupStatus"
  deleteClusterDataInS3Stores :: "VRGInstance \<Rightarrow> error option"
  restorePVsForVolSync :: "VRGInstance \<Rightarrow> error option"
  restorePVsForVolRep :: "VRGInstance \<Rightarrow> error option"
  reconcileVolSyncAsPrimary :: "VRGInstance \<Rightarrow> bool \<times> VolumeReplicationGroupStatus"
  reconcileVolRepsAsPrimary :: "VRGInstance \<Rightarrow> bool \<times> VolumeReplicationGroupStatus"
  reconcileVolSyncAsSecondary :: "VRGInstance \<Rightarrow> bool \<times> VolumeReplicationGroupStatus"
  reconcileVolRepsAsSecondary :: "VRGInstance \<Rightarrow> bool \<times> VolumeReplicationGroupStatus"
  setStatusCondition :: "Condition list \<Rightarrow> Condition \<Rightarrow> Condition list"
  setVRGInitialCondition :: "Condition list \<Rightarrow> int \<Rightarrow> message \<Rightarrow> Condition list"
  setVRGDataErrorCondition :: "Condition list \<Rightarrow> int \<Rightarrow> message \<Rightarrow> Condition list"
  setVRGClusterDataReadyCondition :: "Condition list \<Rightarrow> int \<Rightarrow> message \<Rightarrow> Condition list"
  setVRGClusterDataErrorCondition :: "Condition list \<Rightarrow> int \<Rightarrow> message \<Rightarrow> Condition list"
  aggregateVolSyncDataReadyCondition :: "VRGInstance \<Rightarrow> Condition option"
  aggregateVolSyncDataProtectedCondition :: "VRGInstance \<Rightarrow> Condition option"
  aggregateVolSyncClusterDataProtectedCondition :: "VRGInstance \<Rightarrow> Condition option"
  aggregateVolRepDataReadyCondition :: "VRGInstance \<Rightarrow> Condition list"
  aggregateVolRepDataProtectedCondition :: "VRGInstance \<Rightarrow> Condition list"
  aggregateVolRepClusterDataProtectedCondition :: "VRGInstance \<Rightarrow> Condition list"

subsection \<open>Constants and helpers\<close>

definition vrgFinalizerName :: string where
  "vrgFinalizerName = ''volumereplicationgroups.ramendr.openshift.io/vrg-protection''"

text \<open>
  Modelled from the spec: the names of the four summary conditions and the reason that
  marks an error are declared outside the source file; the spec names the conditions
  \<^verbatim>\<open>DataReady\<close>, \<^verbatim>\<open>DataProtected\<close>, \<^verbatim>\<open>ClusterDataProtected\<close> and \<^verbatim>\<open>ClusterDataReady\<close>.
\<close>

definition VRGConditionTypeDataReady :: string where
  "VRGConditionTypeDataReady = ''DataReady''"

definition VRGConditionTypeDataProtected :: string where
  "VRGConditionTypeDataProtected = ''DataProtected''"

definition VRGConditionTypeClusterDataProtected :: string where
  "VRGConditionTypeClusterDataProtected = ''ClusterDataProtected''"

definition VRGConditionTypeClusterDataReady :: string where
  "VRGConditionTypeClusterDataReady = ''ClusterDataReady''"

definition VRGConditionReasonError :: string where
  "VRGConditionReasonError = ''Error''"

text \<open>
  Modelled from the spec: \<^verbatim>\<open>findCondition\<close> is in another file of the package. The
  conditions are unique by type and the helper finds one by its type: the first entry
  of that type, nil when there is none.
\<close>

fun findCondition :: "Condition list \<Rightarrow> string \<Rightarrow> Condition option" where
  "findCondition [] t = None"
| "findCondition (c # cs) t = (if condType c = t then Some c else findCondition cs t)"

fun containsString :: "string list \<Rightarrow> string \<Rightarrow> bool" where
  "containsString [] s = False"
| "containsString (item # values) s = (if item = s then True else containsString values s)"

fun removeString :: "string list \<Rightarrow> string \<Rightarrow> string list" where
  "removeString [] s = []"
| "removeString (item # values) s =
     (if item = s then removeString values s else item # removeString values s)"

definition logInfo :: "string \<Rightarrow> VRGInstance \<Rightarrow> VRGInstance" where
  "logInfo msg v = v\<lparr>effects := effects v @ [LogInfo msg]\<rparr>"

definition logError :: "string \<Rightarrow> VRGInstance \<Rightarrow> VRGInstance" where
  "logError msg v = v\<lparr>effects := effects v @ [LogError msg]\<rparr>"

definition emit :: "effect \<Rightarrow> VRGInstance \<Rightarrow> VRGInstance" where
  "emit e v = v\<lparr>effects := effects v @ [e]\<rparr>"

definition setStatus :: "VolumeReplicationGroupStatus \<Rightarrow> VRGInstance \<Rightarrow> VRGInstance" where
  "setStatus st v = v\<lparr>inst := (inst v)\<lparr>Status := st\<rparr>\<rparr>"

definition setConditions :: "Condition list \<Rightarrow> VRGInstance \<Rightarrow> VRGInstance" where
  "setConditions cs v = setStatus ((Status (inst v))\<lparr>Conditions := cs\<rparr>) v"

definition setFinalizers :: "string list \<Rightarrow> VRGInstance \<Rightarrow> VRGInstance" where
  "setFinalizers fs v = v\<lparr>inst := (inst v)\<lparr>Finalizers := fs\<rparr>\<rparr>"

definition setState :: "State \<Rightarrow> VRGInstance \<Rightarrow> VRGInstance" where
  "setState st v = setStatus ((Status (inst v))\<lparr>State := st\<rparr>) v"

text \<open>
  A call of a collaborator that reconciles per-volume resources: the group's status
  becomes the one the collaborator leaves, and the call is recorded with its verdict.
\<close>

definition callReconciler ::
  "(VRGInstance \<Rightarrow> bool \<times> VolumeReplicationGroupStatus) \<Rightarrow> (bool \<Rightarrow> effect) \<Rightarrow>
   VRGInstance \<Rightarrow> bool \<times> VRGInstance" where
  "callReconciler f tag v = (case f v of (requeue, st) \<Rightarrow> (requeue, emit (tag requeue) (setStatus st v)))"

subsection \<open>Validation\<close>

definition initializeStatus :: "env \<Rightarrow> VRGInstance \<Rightarrow> VRGInstance" where
  "initializeStatus env v =
     (if ProtectedPVCs (Status (inst v)) = None then
        (let v1 = setStatus ((Status (inst v))\<lparr>ProtectedPVCs := Some []\<rparr>) v
         in setConditions
              (setVRGInitialCondition env (Conditions (Status (inst v1))) (Generation (inst v1))
                 (Text ''Initializing VolumeReplicationGroup'')) v1)
      else v)"

definition validateVRGState :: "VRGInstance \<Rightarrow> error option \<times> VRGInstance" where
  "validateVRGState v =
     (if Spec_ReplicationState (inst v) \<noteq> Primary \<and> Spec_ReplicationState (inst v) \<noteq> Secondary then
        (Some (InvalidReplicationState (\<not> IsZero (DeletionTimestamp (inst v)))
                 (Spec_ReplicationState (inst v))),
         logError ''Invalid request detected'' v)
      else (None, v))"

definition validateVRGMode :: "VRGInstance \<Rightarrow> error option \<times> VRGInstance" where
  "validateVRGMode v =
     (let async = (Spec_Async_Mode (inst v) = AsyncModeEnabled);
          sync = (Spec_Sync_Mode (inst v) = SyncModeEnabled)
      in if \<not> sync \<and> \<not> async then
           (Some (NeitherSyncNorAsync (\<not> IsZero (DeletionTimestamp (inst v)))),
            logError ''Invalid request detected'' v)
         else (None, v))"

subsection \<open>Restoring cluster data\<close>

definition restorePVs :: "env \<Rightarrow> VRGInstance \<Rightarrow> error option \<times> VRGInstance" where
  "restorePVs env v =
     (let clusterDataReady = findCondition (Conditions (Status (inst v))) VRGConditionTypeClusterDataReady
      in if clusterDataReady \<noteq> None \<and> condStatus (the clusterDataReady) = ConditionTrue \<and>
            condObservedGeneration (the clusterDataReady) = Generation (inst v) then
           (None, logInfo ''VRG's ClusterDataReady condition found. PV restore must have already been applied'' v)
         else
           (case restorePVsForVolSync env v of
              Some err \<Rightarrow>
                (Some (FailedToRestoreVolSync err),
                 logInfo ''VolSync PV restore failed'' (emit (CallRestorePVsForVolSync (Some err)) v))
            | None \<Rightarrow>
                (let v1 = emit (CallRestorePVsForVolSync None) v
                 in case restorePVsForVolRep env v1 of
                      Some err \<Rightarrow>
                        (Some (FailedToRestoreVolRep err),
                         logInfo ''VolRep PV restore failed'' (emit (CallRestorePVsForVolRep (Some err)) v1))
                    | None \<Rightarrow>
                        (let v2 = emit (CallRestorePVsForVolRep None) v1
                         in (None,
                             setConditions
                               (setVRGClusterDataReadyCondition env (Conditions (Status (inst v2)))
                                  (Generation (inst v2)) (Text ''Restored PV cluster data'')) v2)))))"

subsection \<open>Classification of the claims\<close>

definition updateReplicationClassList :: "env \<Rightarrow> VRGInstance \<Rightarrow> error option \<times> VRGInstance" where
  "updateReplicationClassList env v =
     (let v1 = emit ApiListReplicationClasses (logInfo ''Fetching VolumeReplicationClass'' v)
      in case api_List_ReplicationClasses env (inst v1) of
           Inl err \<Rightarrow>
             (Some (FailedToListReplicationClasses err), logError ''Failed to list Replication Classes'' v1)
         | Inr items \<Rightarrow>
             (None, logInfo ''Number of Replication Classes'' (v1\<lparr>replClassList := items\<rparr>)))"

text \<open>The inner loop of \<^verbatim>\<open>separatePVCsUsingVRGStatus\<close>: one claim against every record.\<close>

fun separatePVCUsingVRGStatus ::
  "PersistentVolumeClaim \<Rightarrow> ProtectedPVC list \<Rightarrow> VRGInstance \<Rightarrow> VRGInstance" where
  "separatePVCUsingVRGStatus pvc [] v = v"
| "separatePVCUsingVRGStatus pvc (protectedPVC # rest) v =
     separatePVCUsingVRGStatus pvc rest
       (if pvcName pvc = ppName protectedPVC then
          (if ProtectedByVolSync protectedPVC then v\<lparr>volSyncPVCs := volSyncPVCs v @ [pvc]\<rparr>
           else v\<lparr>volRepPVCs := volRepPVCs v @ [pvc]\<rparr>)
        else v)"

fun separatePVCsUsingVRGStatus :: "PersistentVolumeClaim list \<Rightarrow> VRGInstance \<Rightarrow> VRGInstance" where
  "separatePVCsUsingVRGStatus [] v = v"
| "separatePVCsUsingVRGStatus (pvc # pvcs) v =
     separatePVCsUsingVRGStatus pvcs
       (separatePVCUsingVRGStatus pvc
          (case ProtectedPVCs (Status (inst v)) of None \<Rightarrow> [] | Some ps \<Rightarrow> ps) v)"

text \<open>
  The inner loop of \<^verbatim>\<open>separatePVCsUsingStorageClassProvisioner\<close>, which stops at the
  first replication class of the storage class's provisioner.
\<close>

fun replicationClassMatchFound :: "StorageClass \<Rightarrow> VolumeReplicationClass list \<Rightarrow> bool" where
  "replicationClassMatchFound storageClass [] = False"
| "replicationClassMatchFound storageClass (replicationClass # rest) =
     (if scProvisioner storageClass = vrcProvisioner replicationClass then True
      else replicationClassMatchFound storageClass rest)"

fun separatePVCsUsingStorageClassProvisioner ::
  "env \<Rightarrow> PersistentVolumeClaim list \<Rightarrow> VRGInstance \<Rightarrow> panic + (error option \<times> VRGInstance)" where
  "separatePVCsUsingStorageClassProvisioner env [] v =
     Inr (None, logInfo ''Found %d PVCs targeted for VolRep and %d targeted for VolSync'' v)"
| "separatePVCsUsingStorageClassProvisioner env (pvc # pvcs) v =
     (case pvcStorageClassName pvc of
        None \<Rightarrow> Inl NilPointerDereference
      | Some scName \<Rightarrow>
          (let v1 = emit (ApiGetStorageClass scName) v
           in case api_Get_StorageClass env scName of
                Inl err \<Rightarrow>
                  Inr (Some (FailedToGetStorageClass scName err),
                       logInfo ''Failed to get the storageclass %s'' v1)
              | Inr storageClass \<Rightarrow>
                  separatePVCsUsingStorageClassProvisioner env pvcs
                    (if replicationClassMatchFound storageClass (replClassList v1) then
                       v1\<lparr>volRepPVCs := volRepPVCs v1 @ [pvc]\<rparr>
                     else v1\<lparr>volSyncPVCs := volSyncPVCs v1 @ [pvc]\<rparr>)))"

definition updatePVCListForAll :: "env \<Rightarrow> VRGInstance \<Rightarrow> panic + (error option \<times> VRGInstance)" where
  "updatePVCListForAll env v =
     (let v1 = emit ApiListPVCs (logInfo ''Fetching PersistentVolumeClaims'' v)
      in case api_List_PVCs env (inst v1) of
           Inl err \<Rightarrow>
             Inr (Some (FailedToListPVCs err), logError ''Failed to list PersistentVolumeClaims'' v1)
         | Inr items \<Rightarrow>
             (let v2 = logInfo ''Found %d PVCs using matching lables %v'' v1
              in case (if \<not> vrcUpdated v2 then
                         (case updateReplicationClassList env v2 of
                            (Some err, v3) \<Rightarrow>
                              (Some FailedToGetReplicationClassList,
                               logError ''Failed to get VolumeReplicationClass list'' v3)
                          | (None, v3) \<Rightarrow> (None, v3\<lparr>vrcUpdated := True\<rparr>))
                       else (None, v2)) of
                   (Some err, v3) \<Rightarrow> Inr (Some err, v3)
                 | (None, v3) \<Rightarrow>
                     if \<not> IsZero (DeletionTimestamp (inst v3)) then
                       Inr (None,
                            logInfo ''Separated PVCs (%d) into VolRepPVCs (%d) and VolSyncPVCs (%d)''
                              (separatePVCsUsingVRGStatus items v3))
                     else if replClassList v3 = [] then
                       Inr (None,
                            logInfo ''No VolumeReplicationClass available. Using all PVCs with VolSync''
                              (v3\<lparr>volSyncPVCs := items\<rparr>))
                     else separatePVCsUsingStorageClassProvisioner env items v3))"

definition updatePVCList :: "env \<Rightarrow> VRGInstance \<Rightarrow> panic + (error option \<times> VRGInstance)" where
  "updatePVCList env v =
     (if Spec_VolSync_Disabled (inst v) then
        (let v1 = emit ApiListPVCs (logInfo ''Fetching PersistentVolumeClaims'' v)
         in case api_List_PVCs env (inst v1) of
              Inl err \<Rightarrow>
                Inr (Some (FailedToListPVCs err), logError ''Failed to list PersistentVolumeClaims'' v1)
            | Inr items \<Rightarrow>
                Inr (None, logInfo ''Found PersistentVolumeClaims'' (v1\<lparr>volRepPVCs := items\<rparr>)))
      else updatePVCListForAll env v)"

subsection \<open>Conditions and the status write\<close>

definition updateVRGDataReadyCondition :: "env \<Rightarrow> VRGInstance \<Rightarrow> VRGInstance" where
  "updateVRGDataReadyCondition env v =
     (let v1 = (case aggregateVolSyncDataReadyCondition env v of
                  None \<Rightarrow> v
                | Some volSyncAggregatedCond \<Rightarrow>
                    setConditions (setStatusCondition env (Conditions (Status (inst v))) volSyncAggregatedCond) v)
      in if volRepPVCs v1 \<noteq> [] then setConditions (aggregateVolRepDataReadyCondition env v1) v1 else v1)"

definition updateVRGDataProtectedCondition :: "env \<Rightarrow> VRGInstance \<Rightarrow> VRGInstance" where
  "updateVRGDataProtectedCondition env v =
     (let volSyncAggregatedCond = aggregateVolSyncDataProtectedCondition env v;
          v1 = (if volSyncAggregatedCond \<noteq> None \<and> volRepPVCs v = [] then
                  setConditions (setStatusCondition env (Conditions (Status (inst v))) (the volSyncAggregatedCond)) v
                else v)
      in if volRepPVCs v1 \<noteq> [] then setConditions (aggregateVolRepDataProtectedCondition env v1) v1 else v1)"

definition updateVRGClusterDataProtectedCondition :: "env \<Rightarrow> VRGInstance \<Rightarrow> VRGInstance" where
  "updateVRGClusterDataProtectedCondition env v =
     (let v1 = (case aggregateVolSyncClusterDataProtectedCondition env v of
                  None \<Rightarrow> v
                | Some volSyncAggregatedCond \<Rightarrow>
                    setConditions (setStatusCondition env (Conditions (Status (inst v))) volSyncAggregatedCond) v)
      in if volRepPVCs v1 \<noteq> [] then setConditions (aggregateVolRepClusterDataProtectedCondition env v1) v1
         else v1)"

definition updateVRGConditions :: "env \<Rightarrow> VRGInstance \<Rightarrow> VRGInstance" where
  "updateVRGConditions env v =
     updateVRGClusterDataProtectedCondition env
       (updateVRGDataProtectedCondition env (updateVRGDataReadyCondition env v))"

fun getStatusStateFromSpecState :: "ReplicationState \<Rightarrow> State" where
  "getStatusStateFromSpecState Primary = PrimaryState"
| "getStatusStateFromSpecState Secondary = SecondaryState"
| "getStatusStateFromSpecState (OtherReplicationState s) = UnknownState"

definition updateStatusState :: "VRGInstance \<Rightarrow> VRGInstance" where
  "updateStatusState v =
     (case findCondition (Conditions (Status (inst v))) VRGConditionTypeDataReady of
        None \<Rightarrow> logInfo ''Failed to find the DataReady condition in status'' v
      | Some dataReadyCondition \<Rightarrow>
          (let StatusState = getStatusStateFromSpecState (Spec_ReplicationState (inst v))
           in if condStatus dataReadyCondition = ConditionTrue then setState StatusState v
              else if condReason dataReadyCondition = VRGConditionReasonError then setState UnknownState v
              else if StatusState = UnknownState then setState StatusState v
              else v))"

definition areRequiredConditionsReady :: "VRGInstance \<Rightarrow> bool" where
  "areRequiredConditionsReady v =
     (let condition = findCondition (Conditions (Status (inst v))) VRGConditionTypeDataReady
      in if condition = None \<or> condStatus (the condition) \<noteq> ConditionTrue then False
         else
           (let condition = findCondition (Conditions (Status (inst v))) VRGConditionTypeDataProtected
            in if condition = None \<or> condStatus (the condition) \<noteq> ConditionTrue then False
               else
                 (let condition =
                        findCondition (Conditions (Status (inst v))) VRGConditionTypeClusterDataProtected
                  in if condition = None \<or> condStatus (the condition) \<noteq> ConditionTrue then False
                     else True)))"

text \<open>
  \<^verbatim>\<open>updateVRGStatus\<close> in two parts. The first computes the status: the conditions
  when asked, the state, the observed generation.
\<close>

definition computeVRGStatus :: "env \<Rightarrow> bool \<Rightarrow> VRGInstance \<Rightarrow> VRGInstance" where
  "computeVRGStatus env updateConditions v =
     (let v1 = logInfo ''Updating VRG status'' v;
          v2 = (if updateConditions then updateVRGConditions env v1 else v1);
          v3 = updateStatusState v2
      in setStatus ((Status (inst v3))\<lparr>ObservedGeneration := Generation (inst v3)\<rparr>) v3)"

text \<open>
  The second compares it with the copy taken when the reconcile started and writes it
  when they differ. \<^verbatim>\<open>reflect.DeepEqual\<close> on two statuses is equality of the records. A
  status update that succeeds leaves the status in memory as it was sent.
\<close>

definition updateVRGStatus ::
  "env \<Rightarrow> bool \<Rightarrow> VRGInstance \<Rightarrow> (bool \<times> error option) \<times> VRGInstance" where
  "updateVRGStatus env updateConditions v =
     (let v4 = computeVRGStatus env updateConditions v
      in if savedInstanceStatus v4 \<noteq> Status (inst v4) then
           (let v5 = setStatus ((Status (inst v4))\<lparr>LastUpdateTime := Now env\<rparr>) v4;
                v6 = emit (ApiStatusUpdate (inst v5)) v5
            in case api_Status_Update env (inst v5) of
                 Some err \<Rightarrow>
                   ((True, Some (FailedToUpdateStatus (Name (inst v6)) (Namespace (inst v6)))),
                    logInfo ''Failed to update VRG status (%s/%s/%v/%+v)'' v6)
               | None \<Rightarrow>
                   (let v7 = logInfo ''Updated VRG Status %+v'' v6
                    in ((\<not> areRequiredConditionsReady v7, None), v7)))
         else
           (let v5 = logInfo ''Nothing to update %+v'' v4
            in ((\<not> areRequiredConditionsReady v5, None), v5)))"

subsection \<open>The deletion protocol\<close>

definition deleteVRGHandleMode :: "env \<Rightarrow> VRGInstance \<Rightarrow> bool \<times> VRGInstance" where
  "deleteVRGHandleMode env v = callReconciler (reconcileVRsForDeletion env) CallReconcileVRsForDeletion v"

definition removeFinalizer :: "env \<Rightarrow> string \<Rightarrow> VRGInstance \<Rightarrow> error option \<times> VRGInstance" where
  "removeFinalizer env finalizer v =
     (let v1 = setFinalizers (removeString (Finalizers (inst v)) finalizer) v;
          v2 = emit (ApiUpdate (inst v1)) v1
      in case api_Update env (inst v1) of
           Some err \<Rightarrow>
             (Some (FailedToRemoveFinalizer (Namespace (inst v2)) (Name (inst v2)) err),
              logError ''Failed to remove finalizer'' v2)
         | None \<Rightarrow> (None, v2))"

text \<open>
  Modelled from the spec: \<^verbatim>\<open>addFinalizer\<close> is in another file of the package. It
  ensures that the finalizer is present, adding it and updating the group when it is
  missing; a failed update is its error.
\<close>

definition addFinalizer :: "env \<Rightarrow> string \<Rightarrow> VRGInstance \<Rightarrow> error option \<times> VRGInstance" where
  "addFinalizer env finalizer v =
     (if containsString (Finalizers (inst v)) finalizer then (None, v)
      else
        (let v1 = setFinalizers (Finalizers (inst v) @ [finalizer]) v;
             v2 = emit (ApiUpdate (inst v1)) v1
         in case api_Update env (inst v1) of
              Some err \<Rightarrow> (Some (FailedToAddFinalizer (Namespace (inst v2)) (Name (inst v2)) err), v2)
            | None \<Rightarrow> (None, v2)))"

definition processForDeletion :: "env \<Rightarrow> VRGInstance \<Rightarrow> (Result \<times> error option) \<times> VRGInstance" where
  "processForDeletion env v =
     (let v0 = logInfo ''Entering processing VolumeReplicationGroup for deletion'' v;
          (res, v') =
            (if \<not> containsString (Finalizers (inst v0)) vrgFinalizerName then
               ((\<lparr>Requeue = False, RequeueAfter = 0\<rparr>, None), logInfo ''Finalizer missing from resource'' v0)
             else
               (case deleteVRGHandleMode env v0 of
                  (True, v1) \<Rightarrow>
                    ((\<lparr>Requeue = True, RequeueAfter = 0\<rparr>, None),
                     logInfo ''Requeuing as reconciling VolumeReplication for deletion failed'' v1)
                | (False, v1) \<Rightarrow>
                    (case (if Spec_ReplicationState (inst v1) = Primary then
                             (let r = deleteClusterDataInS3Stores env v1
                              in (r, emit (CallDeleteClusterDataInS3Stores r) v1))
                           else (None, v1)) of
                       (Some err, v2) \<Rightarrow>
                         ((\<lparr>Requeue = True, RequeueAfter = 0\<rparr>, None),
                          logInfo ''Requeuing due to failure in deleting PV cluster data from S3 stores'' v2)
                     | (None, v2) \<Rightarrow>
                         (case removeFinalizer env vrgFinalizerName v2 of
                            (Some err, v3) \<Rightarrow>
                              ((\<lparr>Requeue = True, RequeueAfter = 0\<rparr>, None),
                               logInfo ''Failed to remove finalizer'' v3)
                          | (None, v3) \<Rightarrow>
                              ((\<lparr>Requeue = False, RequeueAfter = 0\<rparr>, None),
                               emit (ReportIfNotPresent EventTypeNormal EventReasonDeleteSuccess
                                       (Text ''Deletion Success'')) v3)))))
      in (res, logInfo ''Exiting processing VolumeReplicationGroup'' v'))"

subsection \<open>Primary and Secondary\<close>

definition reconcileAsPrimary :: "env \<Rightarrow> VRGInstance \<Rightarrow> bool \<times> VRGInstance" where
  "reconcileAsPrimary env v =
     (let (requeueForVolSync, v1) =
            (if volSyncPVCs v \<noteq> [] then
               callReconciler (reconcileVolSyncAsPrimary env) CallReconcileVolSyncAsPrimary v
             else (False, v));
          (requeueForVolRep, v2) =
            callReconciler (reconcileVolRepsAsPrimary env) CallReconcileVolRepsAsPrimary v1
      in (requeueForVolSync \<or> requeueForVolRep, v2))"

definition reconcileAsSecondary :: "env \<Rightarrow> VRGInstance \<Rightarrow> bool \<times> VRGInstance" where
  "reconcileAsSecondary env v =
     (case callReconciler (reconcileVolSyncAsSecondary env) CallReconcileVolSyncAsSecondary v of
        (True, v1) \<Rightarrow> (True, v1)
      | (False, v1) \<Rightarrow>
          callReconciler (reconcileVolRepsAsSecondary env) CallReconcileVolRepsAsSecondary v1)"

definition handleVRGMode :: "env \<Rightarrow> ReplicationState \<Rightarrow> VRGInstance \<Rightarrow> bool \<times> VRGInstance" where
  "handleVRGMode env state v =
     (let (result, v1) = (if state = Primary then reconcileAsPrimary env v else (False, v))
      in if state = Secondary then reconcileAsSecondary env v1 else (result, v1))"

text \<open>
  What \<^verbatim>\<open>processAsPrimary\<close> and \<^verbatim>\<open>processAsSecondary\<close> do when a step before the
  backends fails: set the condition, write the status, ask for a requeue.
\<close>

definition requeueAfterFailure :: "env \<Rightarrow> VRGInstance \<Rightarrow> (Result \<times> error option) \<times> VRGInstance" where
  "requeueAfterFailure env v =
     (case updateVRGStatus env False v of
        ((_, Some err), v1) \<Rightarrow>
          ((\<lparr>Requeue = True, RequeueAfter = 0\<rparr>, None), logError ''VRG Status update failed'' v1)
      | ((_, None), v1) \<Rightarrow> ((\<lparr>Requeue = True, RequeueAfter = 0\<rparr>, None), v1))"

definition processAsPrimary :: "env \<Rightarrow> VRGInstance \<Rightarrow> (Result \<times> error option) \<times> VRGInstance" where
  "processAsPrimary env v =
     (let v0 = logInfo ''Entering processing VolumeReplicationGroup as Primary'' v;
          (res, v') =
            (case addFinalizer env vrgFinalizerName v0 of
               (Some err, v1) \<Rightarrow>
                 (let v2 = logInfo ''Failed to add finalizer'' v1
                  in requeueAfterFailure env
                       (setConditions
                          (setVRGDataErrorCondition env (Conditions (Status (inst v2))) (Generation (inst v2))
                             (Text ''Failed to add finalizer to VolumeReplicationGroup'')) v2))
             | (None, v1) \<Rightarrow>
                 (case restorePVs env v1 of
                    (Some err, v2) \<Rightarrow>
                      (let v3 = logInfo ''Restoring PVs failed'' v2
                       in requeueAfterFailure env
                            (setConditions
                               (setVRGClusterDataErrorCondition env (Conditions (Status (inst v3)))
                                  (Generation (inst v3)) (Sprintf ''Failed to restore PVs (%v)'' err)) v3))
                  | (None, v2) \<Rightarrow>
                      (let (requeue, v3) = handleVRGMode env Primary v2;
                           v4 = (if \<not> requeue then
                                   emit (ReportIfNotPresent EventTypeNormal EventReasonPrimarySuccess
                                           (Text ''Primary Success'')) v3
                                 else v3);
                           ((statusUpdateRequeueRequested, err), v5) = updateVRGStatus env True v4;
                           requeue' = (if err \<noteq> None then True else requeue)
                       in if requeue' \<or> statusUpdateRequeueRequested then
                            ((\<lparr>Requeue = False, RequeueAfter = Second * 1\<rparr>, None),
                             logInfo ''Requeuing resource as Primary'' v5)
                          else
                            ((\<lparr>Requeue = False, RequeueAfter = 0\<rparr>, None),
                             logInfo ''Successfully processed vrg as primary'' v5))))
      in (res, logInfo ''Exiting processing VolumeReplicationGroup'' v'))"

definition processAsSecondary :: "env \<Rightarrow> VRGInstance \<Rightarrow> (Result \<times> error option) \<times> VRGInstance" where
  "processAsSecondary env v =
     (let v0 = logInfo ''Entering processing VolumeReplicationGroup as Secondary'' v;
          (res, v') =
            (case addFinalizer env vrgFinalizerName v0 of
               (Some err, v1) \<Rightarrow>
                 (let v2 = logInfo ''Failed to add finalizer'' v1
                  in requeueAfterFailure env
                       (setConditions
                          (setVRGDataErrorCondition env (Conditions (Status (inst v2))) (Generation (inst v2))
                             (Text ''Failed to add finalizer to VolumeReplicationGroup'')) v2))
             | (None, v1) \<Rightarrow>
                 (let (requeue, v3) = handleVRGMode env Secondary v1;
                      v4 = (if \<not> requeue then
                              emit (ReportIfNotPresent EventTypeNormal EventReasonSecondarySuccess
                                      (Text ''Secondary Success'')) v3
                            else v3);
                      ((statusUpdateRequeueRequested, err), v5) = updateVRGStatus env True v4;
                      requeue' = (if err \<noteq> None then True else requeue)
                  in if requeue' \<or> statusUpdateRequeueRequested then
                       ((\<lparr>Requeue = False, RequeueAfter = Second * 1\<rparr>, None),
                        logInfo ''Requeuing resource as Secondary'' v5)
                     else
                       ((\<lparr>Requeue = False, RequeueAfter = 0\<rparr>, None),
                        logInfo ''Successfully processed vrg as secondary'' v5)))
      in (res, logInfo ''Exiting processing VolumeReplicationGroup'' v'))"

subsection \<open>The reconcile\<close>

definition processVRGActions :: "env \<Rightarrow> VRGInstance \<Rightarrow> (Result \<times> error option) \<times> VRGInstance" where
  "processVRGActions env v =
     (if \<not> IsZero (DeletionTimestamp (inst v)) then processForDeletion env v
      else if Spec_ReplicationState (inst v) = Primary then processAsPrimary env v
      else processAsSecondary env v)"

text \<open>
  What \<^verbatim>\<open>processVRG\<close> does when a validation fails: report the event, set the
  data-error condition, write the status; requeue only when that write fails.
\<close>

definition validationFailed ::
  "env \<Rightarrow> error \<Rightarrow> string \<Rightarrow> string \<Rightarrow> VRGInstance \<Rightarrow> (Result \<times> error option) \<times> VRGInstance" where
  "validationFailed env err logmsg msg v =
     (let v1 = logError logmsg v;
          v2 = emit (ReportIfNotPresent EventTypeWarning EventReasonValidationFailed (ErrorText err)) v1;
          v3 = setConditions
                 (setVRGDataErrorCondition env (Conditions (Status (inst v2))) (Generation (inst v2)) (Text msg)) v2
      in case updateVRGStatus env False v3 of
           ((_, Some err'), v4) \<Rightarrow>
             ((\<lparr>Requeue = True, RequeueAfter = 0\<rparr>, None), logError ''Status update failed'' v4)
         | ((_, None), v4) \<Rightarrow> ((\<lparr>Requeue = False, RequeueAfter = 0\<rparr>, None), v4))"

definition processVRG :: "env \<Rightarrow> VRGInstance \<Rightarrow> panic + ((Result \<times> error option) \<times> VRGInstance)" where
  "processVRG env v =
     (let v0 = initializeStatus env v
      in case validateVRGState v0 of
           (Some err, v1) \<Rightarrow>
             Inr (validationFailed env err ''Failed to validate the spec state''
                    ''VolumeReplicationGroup state is invalid'' v1)
         | (None, v1) \<Rightarrow>
             (case validateVRGMode v1 of
                (Some err, v2) \<Rightarrow>
                  Inr (validationFailed env err ''Failed to validate the spec mode''
                         ''VolumeReplicationGroup mode is invalid'' v2)
              | (None, v2) \<Rightarrow>
                  (case updatePVCList env v2 of
                     Inl p \<Rightarrow> Inl p
                   | Inr (Some err, v3) \<Rightarrow>
                       (let v4 = logError ''Failed to update PersistentVolumeClaims for resource'' v3;
                            v5 = emit (ReportIfNotPresent EventTypeWarning EventReasonValidationFailed
                                         (ErrorText err)) v4
                        in Inr (requeueAfterFailure env
                                  (setConditions
                                     (setVRGDataErrorCondition env (Conditions (Status (inst v5)))
                                        (Generation (inst v5)) (Text ''Failed to get list of pvcs'')) v5)))
                   | Inr (None, v3) \<Rightarrow> Inr (processVRGActions env v3))))"

text \<open>The zero value of the group, before the store has filled it.\<close>

definition emptyVolumeReplicationGroup :: VolumeReplicationGroup where
  "emptyVolumeReplicationGroup =
     \<lparr>Name = [], Namespace = [], Generation = 0, DeletionTimestamp = None, Finalizers = [],
      Spec_ReplicationState = OtherReplicationState [], Spec_Async_Mode = AsyncModeOther [],
      Spec_Sync_Mode = SyncModeOther [], Spec_VolSync_Disabled = False,
      Status = \<lparr>State = OtherState [], ProtectedPVCs = None, Conditions = [],
                ObservedGeneration = 0, LastUpdateTime = 0\<rparr>\<rparr>"

text \<open>
  The reconcile structure as \<^verbatim>\<open>Reconcile\<close> has it when it calls \<^verbatim>\<open>processVRG\<close>: the
  group as loaded, a copy of its status taken before anything is computed (an absent
  list of protected claims copied as an empty one), and empty lists of claims.
\<close>

definition newVRGInstance :: "string \<Rightarrow> VolumeReplicationGroup \<Rightarrow> effect list \<Rightarrow> VRGInstance" where
  "newVRGInstance req vrg es =
     \<lparr>inst = vrg,
      savedInstanceStatus =
        (if ProtectedPVCs (Status vrg) = None then (Status vrg)\<lparr>ProtectedPVCs := Some []\<rparr> else Status vrg),
      volRepPVCs = [], volSyncPVCs = [], replClassList = [], vrcUpdated = False,
      namespacedName = req, effects = es\<rparr>"


subsection \<open>Reading the effects of a run\<close>

text \<open>The effects a method added: those of the state it returned beyond those it was given.\<close>

definition effectsSince :: "VRGInstance \<Rightarrow> VRGInstance \<Rightarrow> effect list" where
  "effectsSince v v' = drop (length (effects v)) (effects v')"

fun isApiUpdate :: "effect \<Rightarrow> bool" where
  "isApiUpdate (ApiUpdate x) = True"
| "isApiUpdate e = False"

fun isApiStatusUpdate :: "effect \<Rightarrow> bool" where
  "isApiStatusUpdate (ApiStatusUpdate x) = True"
| "isApiStatusUpdate e = False"

fun isDeletionFailure :: "effect \<Rightarrow> bool" where
  "isDeletionFailure (CallReconcileVRsForDeletion requeue) = requeue"
| "isDeletionFailure (CallDeleteClusterDataInS3Stores r) = (r \<noteq> None)"
| "isDeletionFailure e = False"

fun isRestoreCall :: "effect \<Rightarrow> bool" where
  "isRestoreCall (CallRestorePVsForVolSync r) = True"
| "isRestoreCall (CallRestorePVsForVolRep r) = True"
| "isRestoreCall e = False"

fun isClassLookup :: "effect \<Rightarrow> bool" where
  "isClassLookup ApiListReplicationClasses = True"
| "isClassLookup (ApiGetStorageClass n) = True"
| "isClassLookup e = False"

fun isDeletionCall :: "effect \<Rightarrow> bool" where
  "isDeletionCall (CallReconcileVRsForDeletion requeue) = True"
| "isDeletionCall (CallDeleteClusterDataInS3Stores r) = True"
| "isDeletionCall e = False"

text \<open>
  What the reconcile does when it stops at a validation: the log lines of the validation
  and of the status write, the warning event, and the update of the status.
\<close>

fun isValidationPathEffect :: "effect \<Rightarrow> bool" where
  "isValidationPathEffect (LogError m) =
     (m \<in> set [''Invalid request detected'', ''Failed to validate the spec state'',
                ''Failed to validate the spec mode'', ''Status update failed''])"
| "isValidationPathEffect (LogInfo m) =
     (m \<in> set [''Updating VRG status'', ''Failed to find the DataReady condition in status'',
                ''Nothing to update %+v'', ''Updated VRG Status %+v'',
                ''Failed to update VRG status (%s/%s/%v/%+v)''])"
| "isValidationPathEffect (ReportIfNotPresent t r m) =
     (t = EventTypeWarning \<and> r = EventReasonValidationFailed)"
| "isValidationPathEffect (ApiStatusUpdate x) = True"
| "isValidationPathEffect e = False"

text \<open>The status of a condition type in a list of conditions, if the type is there.\<close>

definition conditionStatus :: "Condition list \<Rightarrow> string \<Rightarrow> ConditionStatus option" where
  "conditionStatus cs t = map_option condStatus (findCondition cs t)"

text \<open>The records of protected claims of a group; none when the list is nil.\<close>

definition protectedPVCs :: "VRGInstance \<Rightarrow> ProtectedPVC list" where
  "protectedPVCs v = (case ProtectedPVCs (Status (inst v)) of None \<Rightarrow> [] | Some ps \<Rightarrow> ps)"

text \<open>
  Whether a claim has a record of its name with the given flag, and whether the store
  resolves its storage class to a provisioner of one of the replication classes.
\<close>

definition recordedAs :: "bool \<Rightarrow> ProtectedPVC list \<Rightarrow> PersistentVolumeClaim \<Rightarrow> bool" where
  "recordedAs byVolSync ps pvc =
     (\<exists>r \<in> set ps. ppName r = pvcName pvc \<and> ProtectedByVolSync r = byVolSync)"

definition provisionedForVolRep ::
  "env \<Rightarrow> VolumeReplicationClass list \<Rightarrow> PersistentVolumeClaim \<Rightarrow> bool" where
  "provisionedForVolRep env classes pvc =
     (case pvcStorageClassName pvc of
        None \<Rightarrow> False
      | Some n \<Rightarrow>
          (case api_Get_StorageClass env n of
             Inl err \<Rightarrow> False
           | Inr storageClass \<Rightarrow> replicationClassMatchFound storageClass classes))"

text \<open>
  The two lists a classification leaves, VolRep first, when it returned without error.
\<close>

definition claimLists ::
  "panic + (error option \<times> VRGInstance) \<Rightarrow>
   (PersistentVolumeClaim list \<times> PersistentVolumeClaim list) option" where
  "claimLists r =
     (case r of
        Inr (None, v) \<Rightarrow> Some (volRepPVCs v, volSyncPVCs v)
      | Inr (Some err, v) \<Rightarrow> None
      | Inl p \<Rightarrow> None)"

subsection \<open>A small cluster for the worked examples\<close>

text \<open>
  A store with no claims and no classes in which every call succeeds, collaborators
  that leave the status alone and ask for nothing, and setters that insert or replace a
  condition by its type. The examples below change one field of it at a time.
\<close>

fun upsertCondition :: "Condition list \<Rightarrow> Condition \<Rightarrow> Condition list" where
  "upsertCondition [] c = [c]"
| "upsertCondition (x # xs) c =
     (if condType x = condType c then c # xs else x # upsertCondition xs c)"

definition mkCondition :: "string \<Rightarrow> ConditionStatus \<Rightarrow> int \<Rightarrow> string \<Rightarrow> Condition" where
  "mkCondition t s g r =
     \<lparr>condType = t, condStatus = s, condObservedGeneration = g, condLastTransitionTime = 0,
      condReason = r, condMessage = []\<rparr>"

definition sampleEnv :: env where
  "sampleEnv =
     \<lparr>api_Get = NotFound (ClientError ''not found''),
      api_List_PVCs = (\<lambda>vrg. Inr []),
      api_List_ReplicationClasses = (\<lambda>vrg. Inr []),
      api_Get_StorageClass = (\<lambda>n. Inl (ClientError ''not found'')),
      api_Update = (\<lambda>vrg. None),
      api_Status_Update = (\<lambda>vrg. None),
      Now = 100,
      reconcileVRsForDeletion = (\<lambda>v. (False, Status (inst v))),
      deleteClusterDataInS3Stores = (\<lambda>v. None),
      restorePVsForVolSync = (\<lambda>v. None),
      restorePVsForVolRep = (\<lambda>v. None),
      reconcileVolSyncAsPrimary = (\<lambda>v. (False, Status (inst v))),
      reconcileVolRepsAsPrimary = (\<lambda>v. (False, Status (inst v))),
      reconcileVolSyncAsSecondary = (\<lambda>v. (False, Status (inst v))),
      reconcileVolRepsAsSecondary = (\<lambda>v. (False, Status (inst v))),
      setStatusCondition = upsertCondition,
      setVRGInitialCondition =
        (\<lambda>cs g m. upsertCondition cs (mkCondition VRGConditionTypeDataReady ConditionUnknown g ''Initializing'')),
      setVRGDataErrorCondition =
        (\<lambda>cs g m. upsertCondition cs (mkCondition VRGConditionTypeDataReady ConditionFalse g VRGConditionReasonError)),
      setVRGClusterDataReadyCondition =
        (\<lambda>cs g m. upsertCondition cs (mkCondition VRGConditionTypeClusterDataReady ConditionTrue g ''Restored'')),
      setVRGClusterDataErrorCondition =
        (\<lambda>cs g m. upsertCondition cs
           (mkCondition VRGConditionTypeClusterDataReady ConditionFalse g VRGConditionReasonError)),
      aggregateVolSyncDataReadyCondition = (\<lambda>v. None),
      aggregateVolSyncDataProtectedCondition = (\<lambda>v. None),
      aggregateVolSyncClusterDataProtectedCondition = (\<lambda>v. None),
      aggregateVolRepDataReadyCondition = (\<lambda>v. Conditions (Status (inst v))),
      aggregateVolRepDataProtectedCondition = (\<lambda>v. Conditions (Status (inst v))),
      aggregateVolRepClusterDataProtectedCondition = (\<lambda>v. Conditions (Status (inst v)))\<rparr>"

definition sampleStatus :: VolumeReplicationGroupStatus where
  "sampleStatus =
     \<lparr>State = OtherState [], ProtectedPVCs = None, Conditions = [], ObservedGeneration = 0,
      LastUpdateTime = 0\<rparr>"

definition sampleVRG :: VolumeReplicationGroup where
  "sampleVRG =
     \<lparr>Name = ''vrg'', Namespace = ''ns'', Generation = 2, DeletionTimestamp = None,
      Finalizers = [vrgFinalizerName], Spec_ReplicationState = Primary,
      Spec_Async_Mode = AsyncModeEnabled, Spec_Sync_Mode = SyncModeOther [],
      Spec_VolSync_Disabled = False, Status = sampleStatus\<rparr>"

definition samplePVC :: "string \<Rightarrow> PersistentVolumeClaim" where
  "samplePVC n = \<lparr>pvcName = n, pvcNamespace = ''ns'', pvcStorageClassName = Some ''sc''\<rparr>"

definition sampleInstance :: "VolumeReplicationGroup \<Rightarrow> VRGInstance" where
  "sampleInstance vrg = newVRGInstance ''ns/vrg'' vrg []"

text \<open>A Primary group whose three summary conditions are True at a given generation.\<close>

definition readyAtGeneration :: "int \<Rightarrow> Condition list" where
  "readyAtGeneration g =
     [mkCondition VRGConditionTypeDataReady ConditionTrue g ''Ready'',
      mkCondition VRGConditionTypeDataProtected ConditionTrue g ''Protected'',
      mkCondition VRGConditionTypeClusterDataProtected ConditionTrue g ''Uploaded'']"

definition readyVRG :: "int \<Rightarrow> VolumeReplicationGroup" where
  "readyVRG g =
     sampleVRG\<lparr>Status := sampleStatus\<lparr>State := PrimaryState, ProtectedPVCs := Some [],
       Conditions := readyAtGeneration g, ObservedGeneration := g\<rparr>\<rparr>"

text \<open>
  The small cluster with given claims and replication classes, and one storage class
  \<open>sc\<close> of provisioner \<open>csi\<close>; a group under deletion with given records of protected
  claims; a record.
\<close>

definition claimsEnv :: "PersistentVolumeClaim list \<Rightarrow> VolumeReplicationClass list \<Rightarrow> env" where
  "claimsEnv pvcs classes =
     sampleEnv\<lparr>api_List_PVCs := (\<lambda>vrg. Inr pvcs),
               api_List_ReplicationClasses := (\<lambda>vrg. Inr classes),
               api_Get_StorageClass :=
                 (\<lambda>n. if n = ''sc'' then Inr \<lparr>sc_Name = ''sc'', scProvisioner = ''csi''\<rparr>
                      else Inl (ClientError ''not found''))\<rparr>"

definition deletingVRG :: "ProtectedPVC list \<Rightarrow> VolumeReplicationGroup" where
  "deletingVRG ps =
     sampleVRG\<lparr>DeletionTimestamp := Some 5, Status := sampleStatus\<lparr>ProtectedPVCs := Some ps\<rparr>\<rparr>"

definition protected :: "string \<Rightarrow> bool \<Rightarrow> ProtectedPVC" where
  "protected n byVolSync = \<lparr>ppName = n, ProtectedByVolSync = byVolSync\<rparr>"

subsection \<open>Two passes over one group\<close>









text \<open>
  The invariant of a pass: every effect so far is as \<open>Q\<close> wants it, the group has the
  generation and the desired state it was loaded with, and the copy of the status is
  the one taken at the start.
\<close>

definition passInv ::
  "(effect \<Rightarrow> bool) \<Rightarrow> int \<Rightarrow> ReplicationState \<Rightarrow> VolumeReplicationGroupStatus \<Rightarrow> VRGInstance \<Rightarrow> bool" where
  "passInv Q g rs saved v =
     ((\<forall>e \<in> set (effects v). Q e) \<and> Generation (inst v) = g \<and> Spec_ReplicationState (inst v) = rs \<and>
      savedInstanceStatus v = saved)"

text \<open>
  A pass is quiet at a stored group as long as it has sent no status, the status in
  memory is the stored one and the copy is the stored one.
\<close>

definition quietAt :: "VolumeReplicationGroup \<Rightarrow> VRGInstance \<Rightarrow> bool" where
  "quietAt vrg v =
     (passInv (\<lambda>e. \<not> isApiStatusUpdate e) (Generation vrg) (Spec_ReplicationState vrg) (Status vrg) v \<and>
      Status (inst v) = Status vrg)"








section \<open>Basic facts\<close>

subsection \<open>What the small updates change\<close>

lemma effects_simps [simp]:
  "effects (logInfo m v) = effects v @ [LogInfo m]"
  "effects (logError m v) = effects v @ [LogError m]"
  "effects (emit e v) = effects v @ [e]"
  "effects (setStatus st v) = effects v"
  "effects (setConditions cs v) = effects v"
  "effects (setFinalizers fs v) = effects v"
  "effects (setState s v) = effects v"
  by (simp_all add: logInfo_def logError_def emit_def setStatus_def setConditions_def
      setFinalizers_def setState_def)

lemma inst_simps [simp]:
  "inst (logInfo m v) = inst v"
  "inst (logError m v) = inst v"
  "inst (emit e v) = inst v"
  "inst (setStatus st v) = (inst v)\<lparr>Status := st\<rparr>"
  "inst (setConditions cs v) = (inst v)\<lparr>Status := (Status (inst v))\<lparr>Conditions := cs\<rparr>\<rparr>"
  "inst (setState s v) = (inst v)\<lparr>Status := (Status (inst v))\<lparr>State := s\<rparr>\<rparr>"
  "inst (setFinalizers fs v) = (inst v)\<lparr>Finalizers := fs\<rparr>"
  by (simp_all add: logInfo_def logError_def emit_def setStatus_def setConditions_def
      setFinalizers_def setState_def)

lemma saved_simps [simp]:
  "savedInstanceStatus (logInfo m v) = savedInstanceStatus v"
  "savedInstanceStatus (logError m v) = savedInstanceStatus v"
  "savedInstanceStatus (emit e v) = savedInstanceStatus v"
  "savedInstanceStatus (setStatus st v) = savedInstanceStatus v"
  "savedInstanceStatus (setConditions cs v) = savedInstanceStatus v"
  "savedInstanceStatus (setState s v) = savedInstanceStatus v"
  "savedInstanceStatus (setFinalizers fs v) = savedInstanceStatus v"
  by (simp_all add: logInfo_def logError_def emit_def setStatus_def setConditions_def
      setFinalizers_def setState_def)

lemma volRepPVCs_simps [simp]:
  "volRepPVCs (logInfo m v) = volRepPVCs v"
  "volRepPVCs (logError m v) = volRepPVCs v"
  "volRepPVCs (emit e v) = volRepPVCs v"
  "volRepPVCs (setStatus st v) = volRepPVCs v"
  "volRepPVCs (setConditions cs v) = volRepPVCs v"
  "volRepPVCs (setState s v) = volRepPVCs v"
  "volRepPVCs (setFinalizers fs v) = volRepPVCs v"
  by (simp_all add: logInfo_def logError_def emit_def setStatus_def setConditions_def
      setFinalizers_def setState_def)

lemma volSyncPVCs_simps [simp]:
  "volSyncPVCs (logInfo m v) = volSyncPVCs v"
  "volSyncPVCs (logError m v) = volSyncPVCs v"
  "volSyncPVCs (emit e v) = volSyncPVCs v"
  "volSyncPVCs (setStatus st v) = volSyncPVCs v"
  "volSyncPVCs (setConditions cs v) = volSyncPVCs v"
  "volSyncPVCs (setState s v) = volSyncPVCs v"
  "volSyncPVCs (setFinalizers fs v) = volSyncPVCs v"
  by (simp_all add: logInfo_def logError_def emit_def setStatus_def setConditions_def
      setFinalizers_def setState_def)

lemma replClassList_simps [simp]:
  "replClassList (logInfo m v) = replClassList v"
  "replClassList (logError m v) = replClassList v"
  "replClassList (emit e v) = replClassList v"
  "vrcUpdated (logInfo m v) = vrcUpdated v"
  "vrcUpdated (logError m v) = vrcUpdated v"
  "vrcUpdated (emit e v) = vrcUpdated v"
  by (simp_all add: logInfo_def logError_def emit_def)

lemma effectsSince_append [simp]: "effects v' = effects v @ es \<Longrightarrow> effectsSince v v' = es"
  by (simp add: effectsSince_def)

lemmas sample_defs =
  sampleEnv_def sampleInstance_def newVRGInstance_def sampleVRG_def sampleStatus_def samplePVC_def
  mkCondition_def vrgFinalizerName_def VRGConditionTypeDataReady_def VRGConditionTypeDataProtected_def
  VRGConditionTypeClusterDataProtected_def VRGConditionTypeClusterDataReady_def
  VRGConditionReasonError_def

lemmas update_defs =
  logInfo_def logError_def emit_def setStatus_def setConditions_def setFinalizers_def setState_def
  effectsSince_def callReconciler_def


section \<open>The deletion protocol removes the finalizer last\<close>

lemma containsString_set: "containsString xs s = (s \<in> set xs)"
  by (induction xs) auto

lemma removeString_set: "set (removeString xs s) = set xs - {s}"
  by (induction xs) auto

lemma pfd_missing:
  assumes "\<not> containsString (Finalizers (inst v)) vrgFinalizerName"
    and "processForDeletion env v = (res, v')"
  shows "effectsSince v v' =
           [LogInfo ''Entering processing VolumeReplicationGroup for deletion'',
            LogInfo ''Finalizer missing from resource'',
            LogInfo ''Exiting processing VolumeReplicationGroup'']"
    and "inst v' = inst v" and "res = (\<lparr>Requeue = False, RequeueAfter = 0\<rparr>, None)"
  using assms by (auto simp add: processForDeletion_def Let_def)

lemma pfd_backend_failed:
  assumes "containsString (Finalizers (inst v)) vrgFinalizerName"
    and "reconcileVRsForDeletion env (logInfo ''Entering processing VolumeReplicationGroup for deletion'' v) = (True, st)"
    and "processForDeletion env v = (res, v')"
  shows "effectsSince v v' =
           [LogInfo ''Entering processing VolumeReplicationGroup for deletion'',
            CallReconcileVRsForDeletion True,
            LogInfo ''Requeuing as reconciling VolumeReplication for deletion failed'',
            LogInfo ''Exiting processing VolumeReplicationGroup'']"
    and "Finalizers (inst v') = Finalizers (inst v)" and "res = (\<lparr>Requeue = True, RequeueAfter = 0\<rparr>, None)"
  using assms by (auto simp add: processForDeletion_def Let_def deleteVRGHandleMode_def callReconciler_def)

lemma pfd_store_failed:
  assumes "containsString (Finalizers (inst v)) vrgFinalizerName"
    and "reconcileVRsForDeletion env (logInfo ''Entering processing VolumeReplicationGroup for deletion'' v) = (False, st)"
    and "Spec_ReplicationState (inst v) = Primary"
    and "deleteClusterDataInS3Stores env
           (emit (CallReconcileVRsForDeletion False)
              (setStatus st (logInfo ''Entering processing VolumeReplicationGroup for deletion'' v))) = Some e"
    and "processForDeletion env v = (res, v')"
  shows "effectsSince v v' =
           [LogInfo ''Entering processing VolumeReplicationGroup for deletion'',
            CallReconcileVRsForDeletion False,
            CallDeleteClusterDataInS3Stores (Some e),
            LogInfo ''Requeuing due to failure in deleting PV cluster data from S3 stores'',
            LogInfo ''Exiting processing VolumeReplicationGroup'']"
    and "Finalizers (inst v') = Finalizers (inst v)" and "res = (\<lparr>Requeue = True, RequeueAfter = 0\<rparr>, None)"
  using assms by (auto simp add: processForDeletion_def Let_def deleteVRGHandleMode_def callReconciler_def)

lemma pfd_removal:
  assumes "containsString (Finalizers (inst v)) vrgFinalizerName"
    and "reconcileVRsForDeletion env (logInfo ''Entering processing VolumeReplicationGroup for deletion'' v) = (False, st)"
    and "Spec_ReplicationState (inst v) = Primary \<longrightarrow>
         deleteClusterDataInS3Stores env
           (emit (CallReconcileVRsForDeletion False)
              (setStatus st (logInfo ''Entering processing VolumeReplicationGroup for deletion'' v))) = None"
    and "processForDeletion env v = (res, v')"
  shows "\<exists>x tl. effectsSince v v' =
           LogInfo ''Entering processing VolumeReplicationGroup for deletion'' #
           CallReconcileVRsForDeletion False #
           (if Spec_ReplicationState (inst v) = Primary then [CallDeleteClusterDataInS3Stores None] else []) @
           ApiUpdate x # tl \<and> \<not> (\<exists>e \<in> set tl. isApiUpdate e \<or> isDeletionFailure e)"
  using assms by (auto simp add: processForDeletion_def Let_def deleteVRGHandleMode_def callReconciler_def removeFinalizer_def split: option.splits)

lemma first_split_unique:
  assumes "\<not> (\<exists>e \<in> set xs. P e)" and "\<not> (\<exists>e \<in> set ys. P e)" and "P y'"
    and "xs @ y # ys = pre @ y' # post"
  shows "pre = xs"
  using assms
proof (induction xs arbitrary: pre)
  case Nil
  then show ?case by (cases pre) auto
next
  case (Cons a xs)
  then show ?case by (cases pre) auto
qed

lemma split_has_update: "es = pre @ ApiUpdate x # post \<Longrightarrow> \<exists>e \<in> set es. isApiUpdate e"
  by auto

lemma finalizer_last_no_update:
  assumes "\<not> (\<exists>e \<in> set es. isApiUpdate e)"
    and "(\<exists>e \<in> set es. isDeletionFailure e) \<longrightarrow> present' \<and> rq \<and> ra"
    and "present \<longrightarrow> present'"
  shows "((\<exists>e \<in> set es. isDeletionFailure e) \<longrightarrow>
            present' \<and> rq \<and> ra \<and> \<not> (\<exists>e \<in> set es. isApiUpdate e)) \<and>
         (\<forall>pre x post. es = pre @ ApiUpdate x # post \<longrightarrow>
            CallReconcileVRsForDeletion False \<in> set pre \<and>
            (prim \<longrightarrow> CallDeleteClusterDataInS3Stores None \<in> set pre) \<and>
            \<not> (\<exists>e \<in> set pre. isDeletionFailure e)) \<and>
         (present \<and> \<not> present' \<longrightarrow> (\<exists>e \<in> set es. isApiUpdate e))"
proof (intro conjI allI impI)
  fix pre x post assume "es = pre @ ApiUpdate x # post"
  from split_has_update [OF this] assms(1) have False by simp
  then show "CallReconcileVRsForDeletion False \<in> set pre"
    and "prim \<Longrightarrow> CallDeleteClusterDataInS3Stores None \<in> set pre"
    and "\<not> (\<exists>e \<in> set pre. isDeletionFailure e)" by simp_all
qed (use assms in blast)+

lemma finalizer_last_update:
  assumes es: "es = front @ ApiUpdate x0 # tail"
    and fr: "front = a # CallReconcileVRsForDeletion False # (if prim then [CallDeleteClusterDataInS3Stores None] else [])"
    and a: "\<not> isApiUpdate a" "\<not> isDeletionFailure a"
    and rest: "\<not> (\<exists>e \<in> set tail. isApiUpdate e \<or> isDeletionFailure e)"
  shows "((\<exists>e \<in> set es. isDeletionFailure e) \<longrightarrow>
            present' \<and> rq \<and> ra \<and> \<not> (\<exists>e \<in> set es. isApiUpdate e)) \<and>
         (\<forall>pre x post. es = pre @ ApiUpdate x # post \<longrightarrow>
            CallReconcileVRsForDeletion False \<in> set pre \<and>
            (prim \<longrightarrow> CallDeleteClusterDataInS3Stores None \<in> set pre) \<and>
            \<not> (\<exists>e \<in> set pre. isDeletionFailure e)) \<and>
         (present \<and> \<not> present' \<longrightarrow> (\<exists>e \<in> set es. isApiUpdate e))"
proof -
  have hd1: "\<not> (\<exists>e \<in> set front. isApiUpdate e)" and hd2: "\<not> (\<exists>e \<in> set front. isDeletionFailure e)"
    using a by (simp_all add: fr)
  have tl1: "\<not> (\<exists>e \<in> set tail. isApiUpdate e)" and tl2: "\<not> (\<exists>e \<in> set tail. isDeletionFailure e)"
    using rest by blast+
  have c1: "\<not> (\<exists>e \<in> set es. isDeletionFailure e)"
    using hd2 tl2 by (auto simp: es)
  have c2: "\<exists>e \<in> set es. isApiUpdate e"
    by (simp add: es)
  have c3: "CallReconcileVRsForDeletion False \<in> set front"
    and c4: "prim \<longrightarrow> CallDeleteClusterDataInS3Stores None \<in> set front"
    by (simp_all add: fr)
  have pre: "pre = front" if "es = pre @ ApiUpdate x # post" for pre x post
  proof -
    from that es have "front @ ApiUpdate x0 # tail = pre @ ApiUpdate x # post" by simp
    from first_split_unique [where P = isApiUpdate, OF hd1 tl1 _ this] show ?thesis by simp
  qed
  show ?thesis
  proof (intro conjI allI impI)
    fix pre x post assume "es = pre @ ApiUpdate x # post"
    from pre [OF this] have p: "pre = front" .
    show "CallReconcileVRsForDeletion False \<in> set pre" using c3 p by simp
    show "CallDeleteClusterDataInS3Stores None \<in> set pre" if prim using c4 p that by simp
    show "\<not> (\<exists>e \<in> set pre. isDeletionFailure e)" using hd2 p by simp
  qed (use c1 c2 in blast)+
qed

text \<open>
  Claim C1. In \<^verbatim>\<open>processForDeletion\<close>: when the backend reconciliation for deletion or
  the deletion of the cluster data from the S3 stores reports a failure, the finalizer
  of the group is still there afterwards, the result asks for a requeue and no update of
  the group was sent; every update of the group that the run sends (the removal of the
  finalizer is the only one) comes after the backend reported success and, for a
  Primary, after the cluster data was deleted, with no failure before it; and a run that
  starts with the finalizer and ends without it has sent such an update.
\<close>

theorem processForDeletion_finalizer_last:
  assumes run: "processForDeletion env v = (res, v')"
  shows "((\<exists>e \<in> set (effectsSince v v'). isDeletionFailure e) \<longrightarrow>
            containsString (Finalizers (inst v')) vrgFinalizerName \<and>
            Requeue (fst res) \<and> RequeueAfter (fst res) = 0 \<and>
            \<not> (\<exists>e \<in> set (effectsSince v v'). isApiUpdate e)) \<and>
         (\<forall>pre x post. effectsSince v v' = pre @ ApiUpdate x # post \<longrightarrow>
            CallReconcileVRsForDeletion False \<in> set pre \<and>
            (Spec_ReplicationState (inst v) = Primary \<longrightarrow> CallDeleteClusterDataInS3Stores None \<in> set pre) \<and>
            \<not> (\<exists>e \<in> set pre. isDeletionFailure e)) \<and>
         (containsString (Finalizers (inst v)) vrgFinalizerName \<and>
          \<not> containsString (Finalizers (inst v')) vrgFinalizerName \<longrightarrow>
            (\<exists>e \<in> set (effectsSince v v'). isApiUpdate e))"
proof (cases "containsString (Finalizers (inst v)) vrgFinalizerName")
  case False
  from pfd_missing [OF False run] have "\<not> (\<exists>e \<in> set (effectsSince v v'). isApiUpdate e)"
    and "\<not> (\<exists>e \<in> set (effectsSince v v'). isDeletionFailure e)"
    by simp_all
  then show ?thesis using False by (intro finalizer_last_no_update) simp_all
next
  case True
  let ?v0 = "logInfo ''Entering processing VolumeReplicationGroup for deletion'' v"
  obtain requeue st where backend: "reconcileVRsForDeletion env ?v0 = (requeue, st)"
    by (cases "reconcileVRsForDeletion env ?v0")
  show ?thesis
  proof (cases requeue)
    case failed: True
    with backend have b: "reconcileVRsForDeletion env ?v0 = (True, st)" by simp
    from pfd_backend_failed [OF True b run]
    have "\<not> (\<exists>e \<in> set (effectsSince v v'). isApiUpdate e)"
      and "Finalizers (inst v') = Finalizers (inst v)" "Requeue (fst res)" "RequeueAfter (fst res) = 0"
      by simp_all
    then show ?thesis using True by (intro finalizer_last_no_update) simp_all
  next
    case False
    with backend have b: "reconcileVRsForDeletion env ?v0 = (False, st)" by simp
    let ?v1 = "emit (CallReconcileVRsForDeletion False) (setStatus st ?v0)"
    show ?thesis
    proof (cases "Spec_ReplicationState (inst v) = Primary \<and> deleteClusterDataInS3Stores env ?v1 \<noteq> None")
      case store: True
      then obtain e where p: "Spec_ReplicationState (inst v) = Primary"
        and s: "deleteClusterDataInS3Stores env ?v1 = Some e" by auto
      from pfd_store_failed [OF True b p s run]
      have "\<not> (\<exists>e \<in> set (effectsSince v v'). isApiUpdate e)"
        and "Finalizers (inst v') = Finalizers (inst v)" "Requeue (fst res)" "RequeueAfter (fst res) = 0"
        by simp_all
      then show ?thesis using True by (intro finalizer_last_no_update) simp_all
    next
      case False
      then have ok: "Spec_ReplicationState (inst v) = Primary \<longrightarrow> deleteClusterDataInS3Stores env ?v1 = None"
        by simp
      from pfd_removal [OF True b ok run] obtain x0 tl where
        es: "effectsSince v v' =
               (LogInfo ''Entering processing VolumeReplicationGroup for deletion'' #
                CallReconcileVRsForDeletion False #
                (if Spec_ReplicationState (inst v) = Primary then [CallDeleteClusterDataInS3Stores None] else [])) @
               ApiUpdate x0 # tl"
        and tl: "\<not> (\<exists>e \<in> set tl. isApiUpdate e \<or> isDeletionFailure e)"
        by auto
      show ?thesis
        by (rule finalizer_last_update [OF es refl _ _ tl]) simp_all
    qed
  qed
qed

theorem processForDeletion_finalizer_last_witness:
  "(\<exists>e \<in> set (effectsSince (sampleInstance (sampleVRG\<lparr>DeletionTimestamp := Some 5\<rparr>))
       (snd (processForDeletion
               (sampleEnv\<lparr>reconcileVRsForDeletion := (\<lambda>v. (True, Status (inst v)))\<rparr>)
               (sampleInstance (sampleVRG\<lparr>DeletionTimestamp := Some 5\<rparr>))))). isDeletionFailure e) \<and>
   containsString
     (Finalizers (inst (snd (processForDeletion
               (sampleEnv\<lparr>reconcileVRsForDeletion := (\<lambda>v. (True, Status (inst v)))\<rparr>)
               (sampleInstance (sampleVRG\<lparr>DeletionTimestamp := Some 5\<rparr>)))))) vrgFinalizerName \<and>
   Requeue (fst (fst (processForDeletion
               (sampleEnv\<lparr>reconcileVRsForDeletion := (\<lambda>v. (True, Status (inst v)))\<rparr>)
               (sampleInstance (sampleVRG\<lparr>DeletionTimestamp := Some 5\<rparr>))))) \<and>
   containsString (Finalizers (inst (sampleInstance (sampleVRG\<lparr>DeletionTimestamp := Some 5\<rparr>)))) vrgFinalizerName \<and>
   \<not> containsString
     (Finalizers (inst (snd (processForDeletion sampleEnv
               (sampleInstance (sampleVRG\<lparr>DeletionTimestamp := Some 5\<rparr>)))))) vrgFinalizerName \<and>
   (\<exists>e \<in> set (effectsSince (sampleInstance (sampleVRG\<lparr>DeletionTimestamp := Some 5\<rparr>))
       (snd (processForDeletion sampleEnv
               (sampleInstance (sampleVRG\<lparr>DeletionTimestamp := Some 5\<rparr>))))). isApiUpdate e)"
proof -
  let ?v = "sampleInstance (sampleVRG\<lparr>DeletionTimestamp := Some 5\<rparr>)"
  let ?bad = "sampleEnv\<lparr>reconcileVRsForDeletion := (\<lambda>v. (True, Status (inst v)))\<rparr>"
  let ?r = "processForDeletion ?bad ?v"
  let ?s = "processForDeletion sampleEnv ?v"
  have failure: "\<exists>e \<in> set (effectsSince ?v (snd ?r)). isDeletionFailure e"
    by (simp add: processForDeletion_def deleteVRGHandleMode_def sample_defs update_defs Let_def)
  have before: "containsString (Finalizers (inst ?v)) vrgFinalizerName"
    by (simp add: sample_defs)
  have after: "\<not> containsString (Finalizers (inst (snd ?s))) vrgFinalizerName"
    by (simp add: processForDeletion_def deleteVRGHandleMode_def removeFinalizer_def sample_defs
        update_defs Let_def)
  from processForDeletion_finalizer_last [of ?bad ?v "fst ?r" "snd ?r"] failure
  have "containsString (Finalizers (inst (snd ?r))) vrgFinalizerName \<and> Requeue (fst (fst ?r))"
    by simp
  moreover from processForDeletion_finalizer_last [of sampleEnv ?v "fst ?s" "snd ?s"] before after
  have "\<exists>e \<in> set (effectsSince ?v (snd ?s)). isApiUpdate e"
    by simp
  ultimately show ?thesis using failure before after by simp
qed


section \<open>The restore is not repeated once the cluster data is ready\<close>

text \<open>
  Claim C2. When the lookup of the ClusterDataReady condition finds it with status True
  and the generation of the group, \<^verbatim>\<open>restorePVs\<close> returns no error, logs one line and
  does nothing else, whatever the restore collaborators would answer: neither of them
  is called and the group is left as it was.
\<close>

theorem restorePVs_sticky:
  assumes "findCondition (Conditions (Status (inst v))) VRGConditionTypeClusterDataReady = Some c"
    and "condStatus c = ConditionTrue"
    and "condObservedGeneration c = Generation (inst v)"
  shows "restorePVs env v =
           (None, logInfo ''VRG's ClusterDataReady condition found. PV restore must have already been applied'' v) \<and>
         \<not> (\<exists>e \<in> set (effectsSince v (snd (restorePVs env v))). isRestoreCall e) \<and>
         inst (snd (restorePVs env v)) = inst v"
  using assms by (simp add: restorePVs_def Let_def)

theorem restorePVs_sticky_witness:
  "fst (restorePVs
          (sampleEnv\<lparr>restorePVsForVolSync := (\<lambda>v. Some (ClientError ''store is down'')),
                      restorePVsForVolRep := (\<lambda>v. Some (ClientError ''store is down''))\<rparr>)
          (sampleInstance
             (sampleVRG\<lparr>Status := sampleStatus\<lparr>Conditions :=
                [mkCondition VRGConditionTypeClusterDataReady ConditionTrue 2 ''Restored'']\<rparr>\<rparr>))) = None \<and>
   fst (restorePVs
          (sampleEnv\<lparr>restorePVsForVolSync := (\<lambda>v. Some (ClientError ''store is down'')),
                      restorePVsForVolRep := (\<lambda>v. Some (ClientError ''store is down''))\<rparr>)
          (sampleInstance
             (sampleVRG\<lparr>Status := sampleStatus\<lparr>Conditions :=
                [mkCondition VRGConditionTypeClusterDataReady ConditionTrue 1 ''Restored'']\<rparr>\<rparr>))) =
     Some (FailedToRestoreVolSync (ClientError ''store is down''))"
proof -
  let ?env = "sampleEnv\<lparr>restorePVsForVolSync := (\<lambda>v. Some (ClientError ''store is down'')),
                      restorePVsForVolRep := (\<lambda>v. Some (ClientError ''store is down''))\<rparr>"
  let ?c = "mkCondition VRGConditionTypeClusterDataReady ConditionTrue 2 ''Restored''"
  let ?v = "sampleInstance (sampleVRG\<lparr>Status := sampleStatus\<lparr>Conditions := [?c]\<rparr>\<rparr>)"
  have found: "findCondition (Conditions (Status (inst ?v))) VRGConditionTypeClusterDataReady = Some ?c"
    by (simp add: sample_defs)
  have true: "condStatus ?c = ConditionTrue"
    by (simp add: sample_defs)
  have gen: "condObservedGeneration ?c = Generation (inst ?v)"
    by (simp add: sample_defs)
  from restorePVs_sticky [OF found true gen, of ?env] have "fst (restorePVs ?env ?v) = None"
    by simp
  moreover have "fst (restorePVs ?env
          (sampleInstance
             (sampleVRG\<lparr>Status := sampleStatus\<lparr>Conditions :=
                [mkCondition VRGConditionTypeClusterDataReady ConditionTrue 1 ''Restored'']\<rparr>\<rparr>))) =
     Some (FailedToRestoreVolSync (ClientError ''store is down''))"
    by (simp add: restorePVs_def sample_defs update_defs Let_def)
  ultimately show ?thesis by simp
qed


section \<open>The status write\<close>

lemma updateVRGConditions_keeps:
  "effects (updateVRGConditions env v) = effects v"
  "savedInstanceStatus (updateVRGConditions env v) = savedInstanceStatus v"
  "volRepPVCs (updateVRGConditions env v) = volRepPVCs v"
  "\<exists>cs. inst (updateVRGConditions env v) = (inst v)\<lparr>Status := (Status (inst v))\<lparr>Conditions := cs\<rparr>\<rparr>"
proof -
  have dr: "effects (updateVRGDataReadyCondition env w) = effects w \<and>
      savedInstanceStatus (updateVRGDataReadyCondition env w) = savedInstanceStatus w \<and>
      volRepPVCs (updateVRGDataReadyCondition env w) = volRepPVCs w \<and>
      (\<exists>cs. inst (updateVRGDataReadyCondition env w) = (inst w)\<lparr>Status := (Status (inst w))\<lparr>Conditions := cs\<rparr>\<rparr>)" for w
    by (auto simp: updateVRGDataReadyCondition_def Let_def split: option.splits
        intro: exI [of _ "Conditions (Status (inst w))"])
  have dp: "effects (updateVRGDataProtectedCondition env w) = effects w \<and>
      savedInstanceStatus (updateVRGDataProtectedCondition env w) = savedInstanceStatus w \<and>
      volRepPVCs (updateVRGDataProtectedCondition env w) = volRepPVCs w \<and>
      (\<exists>cs. inst (updateVRGDataProtectedCondition env w) = (inst w)\<lparr>Status := (Status (inst w))\<lparr>Conditions := cs\<rparr>\<rparr>)" for w
    by (auto simp: updateVRGDataProtectedCondition_def Let_def split: option.splits
        intro: exI [of _ "Conditions (Status (inst w))"])
  have cp: "effects (updateVRGClusterDataProtectedCondition env w) = effects w \<and>
      savedInstanceStatus (updateVRGClusterDataProtectedCondition env w) = savedInstanceStatus w \<and>
      volRepPVCs (updateVRGClusterDataProtectedCondition env w) = volRepPVCs w \<and>
      (\<exists>cs. inst (updateVRGClusterDataProtectedCondition env w) = (inst w)\<lparr>Status := (Status (inst w))\<lparr>Conditions := cs\<rparr>\<rparr>)" for w
    by (auto simp: updateVRGClusterDataProtectedCondition_def Let_def split: option.splits
        intro: exI [of _ "Conditions (Status (inst w))"])
  let ?a = "updateVRGDataReadyCondition env v"
  let ?b = "updateVRGDataProtectedCondition env ?a"
  show "effects (updateVRGConditions env v) = effects v"
    "savedInstanceStatus (updateVRGConditions env v) = savedInstanceStatus v"
    "volRepPVCs (updateVRGConditions env v) = volRepPVCs v"
    by (simp_all add: updateVRGConditions_def dr dp cp)
  from dr [of v] obtain c1 where 1: "inst ?a = (inst v)\<lparr>Status := (Status (inst v))\<lparr>Conditions := c1\<rparr>\<rparr>"
    by blast
  from dp [of ?a] obtain c2 where 2: "inst ?b = (inst ?a)\<lparr>Status := (Status (inst ?a))\<lparr>Conditions := c2\<rparr>\<rparr>"
    by blast
  from cp [of ?b] obtain c3 where 3: "inst (updateVRGClusterDataProtectedCondition env ?b) =
      (inst ?b)\<lparr>Status := (Status (inst ?b))\<lparr>Conditions := c3\<rparr>\<rparr>"
    by blast
  show "\<exists>cs. inst (updateVRGConditions env v) = (inst v)\<lparr>Status := (Status (inst v))\<lparr>Conditions := cs\<rparr>\<rparr>"
    by (rule exI [of _ c3]) (simp add: updateVRGConditions_def 1 2 3)
qed

lemma updateStatusState_keeps:
  "savedInstanceStatus (updateStatusState v) = savedInstanceStatus v"
  "volRepPVCs (updateStatusState v) = volRepPVCs v"
  "\<exists>s. inst (updateStatusState v) = (inst v)\<lparr>Status := (Status (inst v))\<lparr>State := s\<rparr>\<rparr>"
  by (auto simp: updateStatusState_def Let_def split: option.splits
      intro: exI [of _ "State (Status (inst v))"])

lemma updateStatusState_effects:
  "effects (updateStatusState v) = effects v @
     (if findCondition (Conditions (Status (inst v))) VRGConditionTypeDataReady = None
      then [LogInfo ''Failed to find the DataReady condition in status''] else [])"
  by (simp add: updateStatusState_def Let_def split: option.splits)

lemma computeVRGStatus_keeps:
  "savedInstanceStatus (computeVRGStatus env b v) = savedInstanceStatus v"
  "volRepPVCs (computeVRGStatus env b v) = volRepPVCs v"
  "Finalizers (inst (computeVRGStatus env b v)) = Finalizers (inst v)"
  "Generation (inst (computeVRGStatus env b v)) = Generation (inst v)"
  "Name (inst (computeVRGStatus env b v)) = Name (inst v)"
  "Spec_ReplicationState (inst (computeVRGStatus env b v)) = Spec_ReplicationState (inst v)"
  "ObservedGeneration (Status (inst (computeVRGStatus env b v))) = Generation (inst v)"
  "LastUpdateTime (Status (inst (computeVRGStatus env b v))) = LastUpdateTime (Status (inst v))"
proof -
  let ?v1 = "logInfo ''Updating VRG status'' v"
  let ?v2 = "if b then updateVRGConditions env ?v1 else ?v1"
  obtain cs where 2: "inst ?v2 = (inst v)\<lparr>Status := (Status (inst v))\<lparr>Conditions := cs\<rparr>\<rparr>"
    using updateVRGConditions_keeps(4) [of env ?v1]
    by (cases b) (auto intro: that [of "Conditions (Status (inst v))"])
  obtain s where 3: "inst (updateStatusState ?v2) = (inst ?v2)\<lparr>Status := (Status (inst ?v2))\<lparr>State := s\<rparr>\<rparr>"
    using updateStatusState_keeps(3) by blast
  have c: "computeVRGStatus env b v =
      setStatus ((Status (inst (updateStatusState ?v2)))\<lparr>ObservedGeneration := Generation (inst (updateStatusState ?v2))\<rparr>)
        (updateStatusState ?v2)"
    by (simp add: computeVRGStatus_def Let_def)
  show "savedInstanceStatus (computeVRGStatus env b v) = savedInstanceStatus v"
    "volRepPVCs (computeVRGStatus env b v) = volRepPVCs v"
    by (simp_all add: c updateStatusState_keeps updateVRGConditions_keeps)
  show "Finalizers (inst (computeVRGStatus env b v)) = Finalizers (inst v)"
    "Generation (inst (computeVRGStatus env b v)) = Generation (inst v)"
    "Name (inst (computeVRGStatus env b v)) = Name (inst v)"
    "Spec_ReplicationState (inst (computeVRGStatus env b v)) = Spec_ReplicationState (inst v)"
    "ObservedGeneration (Status (inst (computeVRGStatus env b v))) = Generation (inst v)"
    "LastUpdateTime (Status (inst (computeVRGStatus env b v))) = LastUpdateTime (Status (inst v))"
    by (simp_all add: c 2 3)
qed

lemma computeVRGStatus_False_Conditions:
  "Conditions (Status (inst (computeVRGStatus env False v))) = Conditions (Status (inst v))"
proof -
  let ?v1 = "logInfo ''Updating VRG status'' v"
  obtain s where 3: "inst (updateStatusState ?v1) = (inst ?v1)\<lparr>Status := (Status (inst ?v1))\<lparr>State := s\<rparr>\<rparr>"
    using updateStatusState_keeps(3) by blast
  show ?thesis by (simp add: computeVRGStatus_def Let_def 3)
qed

lemma computeVRGStatus_False_effects:
  "effects (computeVRGStatus env False v) = effects v @ LogInfo ''Updating VRG status'' #
     (if findCondition (Conditions (Status (inst v))) VRGConditionTypeDataReady = None
      then [LogInfo ''Failed to find the DataReady condition in status''] else [])"
  by (simp add: computeVRGStatus_def Let_def updateStatusState_effects)


lemma areRequiredConditionsReady_iff:
  "areRequiredConditionsReady v =
     (conditionStatus (Conditions (Status (inst v))) VRGConditionTypeDataReady = Some ConditionTrue \<and>
      conditionStatus (Conditions (Status (inst v))) VRGConditionTypeDataProtected = Some ConditionTrue \<and>
      conditionStatus (Conditions (Status (inst v))) VRGConditionTypeClusterDataProtected = Some ConditionTrue)"
  by (auto simp: areRequiredConditionsReady_def conditionStatus_def Let_def)

text \<open>The three ways out of \<^verbatim>\<open>updateVRGStatus\<close>.\<close>

lemma updateVRGStatus_unchanged:
  assumes "Status (inst (computeVRGStatus env b v)) = savedInstanceStatus v"
  shows "updateVRGStatus env b v =
           ((\<not> areRequiredConditionsReady (computeVRGStatus env b v), None),
            logInfo ''Nothing to update %+v'' (computeVRGStatus env b v))"
  using assms
  by (simp add: updateVRGStatus_def Let_def computeVRGStatus_keeps areRequiredConditionsReady_iff)

lemma updateVRGStatus_written:
  assumes "Status (inst (computeVRGStatus env b v)) \<noteq> savedInstanceStatus v"
    and "v5 = setStatus ((Status (inst (computeVRGStatus env b v)))\<lparr>LastUpdateTime := Now env\<rparr>)
                (computeVRGStatus env b v)"
    and "api_Status_Update env (inst v5) = None"
  shows "updateVRGStatus env b v =
           ((\<not> areRequiredConditionsReady (computeVRGStatus env b v), None),
            logInfo ''Updated VRG Status %+v'' (emit (ApiStatusUpdate (inst v5)) v5))"
  using assms
  by (auto simp add: updateVRGStatus_def Let_def computeVRGStatus_keeps areRequiredConditionsReady_iff)

lemma updateVRGStatus_failed:
  assumes "Status (inst (computeVRGStatus env b v)) \<noteq> savedInstanceStatus v"
    and "v5 = setStatus ((Status (inst (computeVRGStatus env b v)))\<lparr>LastUpdateTime := Now env\<rparr>)
                (computeVRGStatus env b v)"
    and "api_Status_Update env (inst v5) = Some err"
  shows "updateVRGStatus env b v =
           ((True, Some (FailedToUpdateStatus (Name (inst v)) (Namespace (inst v5)))),
            logInfo ''Failed to update VRG status (%s/%s/%v/%+v)'' (emit (ApiStatusUpdate (inst v5)) v5))"
  using assms
  by (auto simp add: updateVRGStatus_def Let_def computeVRGStatus_keeps)


lemma updateVRGStatus_cases:
  obtains
    (unchanged) "Status (inst (computeVRGStatus env b v)) = savedInstanceStatus v"
      "updateVRGStatus env b v =
         ((\<not> areRequiredConditionsReady (computeVRGStatus env b v), None),
          logInfo ''Nothing to update %+v'' (computeVRGStatus env b v))"
  | (written) v5 where "Status (inst (computeVRGStatus env b v)) \<noteq> savedInstanceStatus v"
      "v5 = setStatus ((Status (inst (computeVRGStatus env b v)))\<lparr>LastUpdateTime := Now env\<rparr>)
                (computeVRGStatus env b v)"
      "api_Status_Update env (inst v5) = None"
      "updateVRGStatus env b v =
         ((\<not> areRequiredConditionsReady (computeVRGStatus env b v), None),
          logInfo ''Updated VRG Status %+v'' (emit (ApiStatusUpdate (inst v5)) v5))"
  | (failed) v5 err where "Status (inst (computeVRGStatus env b v)) \<noteq> savedInstanceStatus v"
      "v5 = setStatus ((Status (inst (computeVRGStatus env b v)))\<lparr>LastUpdateTime := Now env\<rparr>)
                (computeVRGStatus env b v)"
      "api_Status_Update env (inst v5) = Some err"
      "updateVRGStatus env b v =
         ((True, Some (FailedToUpdateStatus (Name (inst v)) (Namespace (inst v5)))),
          logInfo ''Failed to update VRG status (%s/%s/%v/%+v)'' (emit (ApiStatusUpdate (inst v5)) v5))"
proof (cases "Status (inst (computeVRGStatus env b v)) = savedInstanceStatus v")
  case True
  from unchanged [OF True updateVRGStatus_unchanged [OF True]] show ?thesis .
next
  case False
  define v5 where "v5 = setStatus ((Status (inst (computeVRGStatus env b v)))\<lparr>LastUpdateTime := Now env\<rparr>)
                (computeVRGStatus env b v)"
  show ?thesis
  proof (cases "api_Status_Update env (inst v5)")
    case None
    from written [OF False v5_def None updateVRGStatus_written [OF False v5_def None]] show ?thesis .
  next
    case (Some err)
    from failed [OF False v5_def Some updateVRGStatus_failed [OF False v5_def Some]] show ?thesis .
  qed
qed

section \<open>The requeue signal of the status write\<close>

text \<open>
  Claim C4, as amended. \<^verbatim>\<open>updateVRGStatus\<close> returns the signal false exactly when it
  returns no error and the status it leaves has the DataReady, DataProtected and
  ClusterDataProtected conditions with status True, whatever their observed
  generation; it returns an error exactly when the status differs from the copy taken
  at the start and the update of the status fails, and the signal is then true.
\<close>

theorem updateVRGStatus_requeue_signal:
  "(\<not> fst (fst (updateVRGStatus env b v))) =
     (snd (fst (updateVRGStatus env b v)) = None \<and>
      conditionStatus (Conditions (Status (inst (snd (updateVRGStatus env b v))))) VRGConditionTypeDataReady =
        Some ConditionTrue \<and>
      conditionStatus (Conditions (Status (inst (snd (updateVRGStatus env b v))))) VRGConditionTypeDataProtected =
        Some ConditionTrue \<and>
      conditionStatus (Conditions (Status (inst (snd (updateVRGStatus env b v)))))
        VRGConditionTypeClusterDataProtected = Some ConditionTrue) \<and>
   (snd (fst (updateVRGStatus env b v)) \<noteq> None) =
     (Status (inst (computeVRGStatus env b v)) \<noteq> savedInstanceStatus v \<and>
      api_Status_Update env (inst (snd (updateVRGStatus env b v))) \<noteq> None)"
proof (cases rule: updateVRGStatus_cases [of env b v])
  case unchanged
  show ?thesis unfolding unchanged(2) using unchanged(1)
    by (auto simp add: areRequiredConditionsReady_iff)
next
  case (written v5)
  show ?thesis unfolding written(4) using written(1,3)
    by (auto simp add: areRequiredConditionsReady_iff written(2))
next
  case (failed v5 err)
  show ?thesis unfolding failed(4) using failed(1,3)
    by (auto simp add: failed(2))
qed

text \<open>
  The claim as written asks for the conditions to be of the current generation. The
  three conditions True at generation 1 on a group of generation 2, with nothing to
  aggregate: the signal is false, and the conditions are still of generation 1.
\<close>

theorem updateVRGStatus_requeue_signal_counterexample:
  "fst (updateVRGStatus sampleEnv True (sampleInstance (readyVRG 1))) = (False, None) \<and>
   Generation (inst (sampleInstance (readyVRG 1))) = 2 \<and>
   map condObservedGeneration
     (Conditions (Status (inst (snd (updateVRGStatus sampleEnv True (sampleInstance (readyVRG 1))))))) =
     [1, 1, 1] \<and>
   map condType
     (Conditions (Status (inst (snd (updateVRGStatus sampleEnv True (sampleInstance (readyVRG 1))))))) =
     [VRGConditionTypeDataReady, VRGConditionTypeDataProtected, VRGConditionTypeClusterDataProtected]"
  by (simp add: updateVRGStatus_def computeVRGStatus_def updateVRGConditions_def
      updateVRGDataReadyCondition_def updateVRGDataProtectedCondition_def
      updateVRGClusterDataProtectedCondition_def updateStatusState_def areRequiredConditionsReady_def
      readyVRG_def readyAtGeneration_def sample_defs update_defs Let_def)

theorem updateVRGStatus_requeue_signal_witness:
  "\<not> fst (fst (updateVRGStatus sampleEnv True (sampleInstance (readyVRG 2)))) \<and>
   fst (fst (updateVRGStatus (sampleEnv\<lparr>api_Status_Update := (\<lambda>vrg. Some (ClientError ''conflict''))\<rparr>) True
          (sampleInstance (readyVRG 1))))"
proof -
  let ?r = "updateVRGStatus sampleEnv True (sampleInstance (readyVRG 2))"
  let ?bad = "sampleEnv\<lparr>api_Status_Update := (\<lambda>vrg. Some (ClientError ''conflict''))\<rparr>"
  let ?f = "updateVRGStatus ?bad True (sampleInstance (readyVRG 1))"
  have r: "?r = ((False, None), logInfo ''Nothing to update %+v''
      (logInfo ''Updating VRG status'' (sampleInstance (readyVRG 2))))"
    by (simp add: updateVRGStatus_def computeVRGStatus_def updateVRGConditions_def
      updateVRGDataReadyCondition_def updateVRGDataProtectedCondition_def
      updateVRGClusterDataProtectedCondition_def updateStatusState_def areRequiredConditionsReady_def
      readyVRG_def readyAtGeneration_def sample_defs update_defs Let_def)
  have "snd (fst ?r) = None \<and>
      conditionStatus (Conditions (Status (inst (snd ?r)))) VRGConditionTypeDataReady = Some ConditionTrue \<and>
      conditionStatus (Conditions (Status (inst (snd ?r)))) VRGConditionTypeDataProtected = Some ConditionTrue \<and>
      conditionStatus (Conditions (Status (inst (snd ?r)))) VRGConditionTypeClusterDataProtected =
        Some ConditionTrue"
    unfolding r by (simp add: conditionStatus_def readyVRG_def readyAtGeneration_def sample_defs)
  with updateVRGStatus_requeue_signal [of sampleEnv True "sampleInstance (readyVRG 2)"]
  have 1: "\<not> fst (fst ?r)" by blast
  have "snd (fst ?f) \<noteq> None"
    by (simp add: updateVRGStatus_def computeVRGStatus_def updateVRGConditions_def
      updateVRGDataReadyCondition_def updateVRGDataProtectedCondition_def
      updateVRGClusterDataProtectedCondition_def updateStatusState_def areRequiredConditionsReady_def
      readyVRG_def readyAtGeneration_def sample_defs update_defs Let_def)
  with updateVRGStatus_requeue_signal [of ?bad True "sampleInstance (readyVRG 1)"]
  have 2: "fst (fst ?f)" by blast
  from 1 2 show ?thesis by simp
qed


section \<open>The status is written only when it changed\<close>











section \<open>A failed validation ends the reconcile\<close>

lemma initializeStatus_keeps:
  "effects (initializeStatus env v) = effects v"
  "savedInstanceStatus (initializeStatus env v) = savedInstanceStatus v"
  "Finalizers (inst (initializeStatus env v)) = Finalizers (inst v)"
  "Generation (inst (initializeStatus env v)) = Generation (inst v)"
  "DeletionTimestamp (inst (initializeStatus env v)) = DeletionTimestamp (inst v)"
  "Spec_ReplicationState (inst (initializeStatus env v)) = Spec_ReplicationState (inst v)"
  "Spec_Async_Mode (inst (initializeStatus env v)) = Spec_Async_Mode (inst v)"
  "Spec_Sync_Mode (inst (initializeStatus env v)) = Spec_Sync_Mode (inst v)"
  by (simp_all add: initializeStatus_def Let_def)

lemma validationFailed_unfold:
  "validationFailed env err logmsg msg v =
     (let v3 = setConditions
                 (setVRGDataErrorCondition env (Conditions (Status (inst v))) (Generation (inst v)) (Text msg))
                 (emit (ReportIfNotPresent EventTypeWarning EventReasonValidationFailed (ErrorText err))
                    (logError logmsg v));
          r = updateVRGStatus env False v3
      in ((\<lparr>Requeue = (snd (fst r) \<noteq> None), RequeueAfter = 0\<rparr>, None),
          if snd (fst r) \<noteq> None then logError ''Status update failed'' (snd r) else snd r))"
  by (simp add: validationFailed_def Let_def split: prod.splits option.splits)

lemma validationFailed_facts:
  assumes logmsg: "isValidationPathEffect (LogError logmsg)"
  shows "\<exists>res v' es.
     validationFailed env err logmsg msg v = ((res, None), v') \<and>
     effects v' = effects v @ es \<and>
     RequeueAfter res = 0 \<and>
     Requeue res = (\<exists>x. ApiStatusUpdate x \<in> set es \<and> api_Status_Update env x \<noteq> None) \<and>
     ReportIfNotPresent EventTypeWarning EventReasonValidationFailed (ErrorText err) \<in> set es \<and>
     (\<forall>e \<in> set es. isValidationPathEffect e) \<and>
     Conditions (Status (inst v')) =
       setVRGDataErrorCondition env (Conditions (Status (inst v))) (Generation (inst v)) (Text msg) \<and>
     (Status (inst v') = savedInstanceStatus v \<or> ApiStatusUpdate (inst v') \<in> set es) \<and>
     Finalizers (inst v') = Finalizers (inst v) \<and>
     ObservedGeneration (Status (inst v')) = Generation (inst v)"
proof -
  let ?rep = "ReportIfNotPresent EventTypeWarning EventReasonValidationFailed (ErrorText err)"
  let ?v3 = "setConditions
                 (setVRGDataErrorCondition env (Conditions (Status (inst v))) (Generation (inst v)) (Text msg))
                 (emit ?rep (logError logmsg v))"
  let ?c = "computeVRGStatus env False ?v3"
  let ?pre = "[LogError logmsg, ?rep, LogInfo ''Updating VRG status''] @
     (if findCondition (Conditions (Status (inst ?v3))) VRGConditionTypeDataReady = None
      then [LogInfo ''Failed to find the DataReady condition in status''] else [])"
  have c_eff: "effects ?c = effects v @ ?pre"
    by (simp add: computeVRGStatus_False_effects)
  have pre: "\<forall>e \<in> set ?pre. isValidationPathEffect e" "?rep \<in> set ?pre" "\<forall>x. ApiStatusUpdate x \<notin> set ?pre"
    using logmsg by auto
  have c_conds: "Conditions (Status (inst ?c)) =
      setVRGDataErrorCondition env (Conditions (Status (inst v))) (Generation (inst v)) (Text msg)"
    by (simp add: computeVRGStatus_False_Conditions)
  have c_keeps: "Finalizers (inst ?c) = Finalizers (inst v)" "savedInstanceStatus ?c = savedInstanceStatus v"
    "ObservedGeneration (Status (inst ?c)) = Generation (inst v)"
    by (simp_all add: computeVRGStatus_keeps)
  show ?thesis
  proof (cases rule: updateVRGStatus_cases [of env False ?v3])
    case unchanged
    let ?es = "?pre @ [LogInfo ''Nothing to update %+v'']"
    let ?v' = "logInfo ''Nothing to update %+v'' ?c"
    have v: "validationFailed env err logmsg msg v = ((\<lparr>Requeue = False, RequeueAfter = 0\<rparr>, None), ?v')"
      unfolding validationFailed_unfold Let_def unchanged(2) by simp
    have e: "effects ?v' = effects v @ ?es" by (simp add: c_eff)
    have s: "Status (inst ?v') = savedInstanceStatus v" using unchanged(1) by simp
    show ?thesis
      apply (rule exI [of _ "\<lparr>Requeue = False, RequeueAfter = 0\<rparr>"])
      apply (rule exI [of _ ?v'])
      apply (rule exI [of _ ?es])
      using v e s pre c_conds c_keeps by auto
  next
    case (written v5)
    let ?es = "?pre @ [ApiStatusUpdate (inst v5), LogInfo ''Updated VRG Status %+v'']"
    let ?v' = "logInfo ''Updated VRG Status %+v'' (emit (ApiStatusUpdate (inst v5)) v5)"
    have v: "validationFailed env err logmsg msg v = ((\<lparr>Requeue = False, RequeueAfter = 0\<rparr>, None), ?v')"
      unfolding validationFailed_unfold Let_def written(4) by simp
    have e: "effects ?v' = effects v @ ?es" by (simp add: c_eff written(2))
    have i: "inst ?v' = inst v5" by simp
    have k: "Conditions (Status (inst v5)) = Conditions (Status (inst ?c))"
      "Finalizers (inst v5) = Finalizers (inst ?c)"
      "ObservedGeneration (Status (inst v5)) = ObservedGeneration (Status (inst ?c))"
      by (simp_all add: written(2))
    show ?thesis
      apply (rule exI [of _ "\<lparr>Requeue = False, RequeueAfter = 0\<rparr>"])
      apply (rule exI [of _ ?v'])
      apply (rule exI [of _ ?es])
      using v e i k pre c_conds c_keeps written(3) by auto
  next
    case (failed v5 err')
    let ?es = "?pre @ [ApiStatusUpdate (inst v5), LogInfo ''Failed to update VRG status (%s/%s/%v/%+v)'',
       LogError ''Status update failed'']"
    let ?v' = "logError ''Status update failed''
       (logInfo ''Failed to update VRG status (%s/%s/%v/%+v)'' (emit (ApiStatusUpdate (inst v5)) v5))"
    have v: "validationFailed env err logmsg msg v = ((\<lparr>Requeue = True, RequeueAfter = 0\<rparr>, None), ?v')"
      unfolding validationFailed_unfold Let_def failed(4) by simp
    have e: "effects ?v' = effects v @ ?es" by (simp add: c_eff failed(2))
    have i: "inst ?v' = inst v5" by simp
    have k: "Conditions (Status (inst v5)) = Conditions (Status (inst ?c))"
      "Finalizers (inst v5) = Finalizers (inst ?c)"
      "ObservedGeneration (Status (inst v5)) = ObservedGeneration (Status (inst ?c))"
      by (simp_all add: failed(2))
    show ?thesis
      apply (rule exI [of _ "\<lparr>Requeue = True, RequeueAfter = 0\<rparr>"])
      apply (rule exI [of _ ?v'])
      apply (rule exI [of _ ?es])
      using v e i k pre c_conds c_keeps failed(3) by auto
  qed
qed

lemma processVRG_state_rejected:
  assumes "Spec_ReplicationState (inst v) \<noteq> Primary" and "Spec_ReplicationState (inst v) \<noteq> Secondary"
  shows "processVRG env v =
           Inr (validationFailed env
                  (InvalidReplicationState (\<not> IsZero (DeletionTimestamp (inst v))) (Spec_ReplicationState (inst v)))
                  ''Failed to validate the spec state'' ''VolumeReplicationGroup state is invalid''
                  (logError ''Invalid request detected'' (initializeStatus env v)))"
  using assms by (simp add: processVRG_def validateVRGState_def Let_def initializeStatus_keeps)

lemma processVRG_mode_rejected:
  assumes "Spec_ReplicationState (inst v) = Primary \<or> Spec_ReplicationState (inst v) = Secondary"
    and "Spec_Async_Mode (inst v) \<noteq> AsyncModeEnabled" and "Spec_Sync_Mode (inst v) \<noteq> SyncModeEnabled"
  shows "processVRG env v =
           Inr (validationFailed env (NeitherSyncNorAsync (\<not> IsZero (DeletionTimestamp (inst v))))
                  ''Failed to validate the spec mode'' ''VolumeReplicationGroup mode is invalid''
                  (logError ''Invalid request detected'' (initializeStatus env v)))"
  using assms by (auto simp add: processVRG_def validateVRGState_def validateVRGMode_def Let_def initializeStatus_keeps)

text \<open>What a reconcile that stops at a validation leaves behind.\<close>

lemma processVRG_validation_path:
  assumes run: "processVRG env v =
      Inr (validationFailed env err logmsg msg (logError ''Invalid request detected'' (initializeStatus env v)))"
    and logmsg: "isValidationPathEffect (LogError logmsg)"
  shows "\<exists>res v'. processVRG env v = Inr ((res, None), v') \<and>
     RequeueAfter res = 0 \<and>
     Requeue res = (\<exists>x. ApiStatusUpdate x \<in> set (effectsSince v v') \<and> api_Status_Update env x \<noteq> None) \<and>
     ReportIfNotPresent EventTypeWarning EventReasonValidationFailed (ErrorText err) \<in> set (effectsSince v v') \<and>
     Conditions (Status (inst v')) =
       setVRGDataErrorCondition env (Conditions (Status (inst (initializeStatus env v)))) (Generation (inst v))
         (Text msg) \<and>
     (Status (inst v') = savedInstanceStatus v \<or> ApiStatusUpdate (inst v') \<in> set (effectsSince v v')) \<and>
     (\<forall>e \<in> set (effectsSince v v'). isValidationPathEffect e) \<and>
     Finalizers (inst v') = Finalizers (inst v)"
proof -
  let ?v1 = "logError ''Invalid request detected'' (initializeStatus env v)"
  from validationFailed_facts [OF logmsg, of env err msg ?v1]
  obtain res v' es where f: "validationFailed env err logmsg msg ?v1 = ((res, None), v')"
    "effects v' = effects ?v1 @ es"
    "RequeueAfter res = 0"
    "Requeue res = (\<exists>x. ApiStatusUpdate x \<in> set es \<and> api_Status_Update env x \<noteq> None)"
    "ReportIfNotPresent EventTypeWarning EventReasonValidationFailed (ErrorText err) \<in> set es"
    "\<forall>e \<in> set es. isValidationPathEffect e"
    "Conditions (Status (inst v')) =
       setVRGDataErrorCondition env (Conditions (Status (inst ?v1))) (Generation (inst ?v1)) (Text msg)"
    "Status (inst v') = savedInstanceStatus ?v1 \<or> ApiStatusUpdate (inst v') \<in> set es"
    "Finalizers (inst v') = Finalizers (inst ?v1)"
    by blast
  have "effects v' = effects v @ (LogError ''Invalid request detected'' # es)"
    using f(2) by (simp add: initializeStatus_keeps)
  then have es: "effectsSince v v' = LogError ''Invalid request detected'' # es"
    by (rule effectsSince_append)
  show ?thesis
    apply (rule exI [of _ res])
    apply (rule exI [of _ v'])
    using f(3-) by (simp add: run f(1) es initializeStatus_keeps)
qed

text \<open>
  Claim C7. For a group whose desired state is neither Primary nor Secondary,
  \<^verbatim>\<open>processVRG\<close> returns a result with no delay to requeue after and no error; it has
  reported the warning event with the validation error and has set the data-error
  condition on the conditions; the status it leaves is either the copy taken at the
  start or has been sent to the store; the result asks for a requeue exactly when that
  update of the status failed; and the run has done nothing but log, report and write
  the status.
\<close>

theorem processVRG_invalid_state_terminal:
  assumes "Spec_ReplicationState (inst v) \<noteq> Primary" and "Spec_ReplicationState (inst v) \<noteq> Secondary"
  shows "\<exists>res v'. processVRG env v = Inr ((res, None), v') \<and>
     RequeueAfter res = 0 \<and>
     Requeue res = (\<exists>x. ApiStatusUpdate x \<in> set (effectsSince v v') \<and> api_Status_Update env x \<noteq> None) \<and>
     ReportIfNotPresent EventTypeWarning EventReasonValidationFailed
       (ErrorText (InvalidReplicationState (\<not> IsZero (DeletionTimestamp (inst v)))
                     (Spec_ReplicationState (inst v)))) \<in> set (effectsSince v v') \<and>
     Conditions (Status (inst v')) =
       setVRGDataErrorCondition env (Conditions (Status (inst (initializeStatus env v)))) (Generation (inst v))
         (Text ''VolumeReplicationGroup state is invalid'') \<and>
     (Status (inst v') = savedInstanceStatus v \<or> ApiStatusUpdate (inst v') \<in> set (effectsSince v v')) \<and>
     (\<forall>e \<in> set (effectsSince v v'). isValidationPathEffect e)"
proof -
  have l: "isValidationPathEffect (LogError ''Failed to validate the spec state'')" by simp
  from processVRG_validation_path [OF processVRG_state_rejected [OF assms, of env] l]
  show ?thesis by (elim exE conjE) (intro exI conjI; assumption)
qed

theorem processVRG_invalid_state_terminal_witness:
  "(\<exists>res v'. processVRG sampleEnv
       (sampleInstance (sampleVRG\<lparr>Spec_ReplicationState := OtherReplicationState ''tertiary''\<rparr>)) =
       Inr ((res, None), v') \<and> RequeueAfter res = 0 \<and> \<not> Requeue res) \<and>
   (\<exists>res v'. processVRG (sampleEnv\<lparr>api_Status_Update := (\<lambda>vrg. Some (ClientError ''conflict''))\<rparr>)
       (sampleInstance (sampleVRG\<lparr>Spec_ReplicationState := OtherReplicationState ''tertiary''\<rparr>)) =
       Inr ((res, None), v') \<and> RequeueAfter res = 0)"
proof -
  let ?v = "sampleInstance (sampleVRG\<lparr>Spec_ReplicationState := OtherReplicationState ''tertiary''\<rparr>)"
  let ?bad = "sampleEnv\<lparr>api_Status_Update := (\<lambda>vrg. Some (ClientError ''conflict''))\<rparr>"
  have 1: "Spec_ReplicationState (inst ?v) \<noteq> Primary" and 2: "Spec_ReplicationState (inst ?v) \<noteq> Secondary"
    by (simp_all add: sample_defs)
  have ok: "api_Status_Update sampleEnv x = None" for x
    by (simp add: sampleEnv_def)
  from processVRG_invalid_state_terminal [OF 1 2, of sampleEnv]
  have a: "\<exists>res v'. processVRG sampleEnv ?v = Inr ((res, None), v') \<and> RequeueAfter res = 0 \<and> \<not> Requeue res"
    by (simp add: ok) blast
  from processVRG_invalid_state_terminal [OF 1 2, of ?bad]
  have b: "\<exists>res v'. processVRG ?bad ?v = Inr ((res, None), v') \<and> RequeueAfter res = 0"
    by blast
  from a b show ?thesis by blast
qed

section \<open>A group that fails validation is not taken through deletion\<close>

lemma validation_effect_is_not_deletion:
  assumes "isValidationPathEffect e"
  shows "e \<noteq> LogInfo ''Entering processing VolumeReplicationGroup for deletion'' \<and>
         \<not> isApiUpdate e \<and> \<not> isDeletionCall e"
  using assms by (cases e) auto

lemma processForDeletion_marks_entry:
  "LogInfo ''Entering processing VolumeReplicationGroup for deletion'' \<in>
     set (effectsSince w (snd (processForDeletion env w)))"
proof (cases "containsString (Finalizers (inst w)) vrgFinalizerName")
  case False
  from pfd_missing(1) [OF False surjective_pairing] show ?thesis by simp
next
  case True
  let ?v0 = "logInfo ''Entering processing VolumeReplicationGroup for deletion'' w"
  obtain requeue st where backend: "reconcileVRsForDeletion env ?v0 = (requeue, st)"
    by (cases "reconcileVRsForDeletion env ?v0")
  let ?v1 = "emit (CallReconcileVRsForDeletion False) (setStatus st ?v0)"
  show ?thesis
  proof (cases requeue)
    case failed: True
    with backend have b: "reconcileVRsForDeletion env ?v0 = (True, st)" by simp
    from pfd_backend_failed(1) [OF True b surjective_pairing] show ?thesis by simp
  next
    case False
    with backend have b: "reconcileVRsForDeletion env ?v0 = (False, st)" by simp
    show ?thesis
    proof (cases "Spec_ReplicationState (inst w) = Primary \<and> deleteClusterDataInS3Stores env ?v1 \<noteq> None")
      case store: True
      then obtain e where p: "Spec_ReplicationState (inst w) = Primary"
        and s: "deleteClusterDataInS3Stores env ?v1 = Some e" by auto
      from pfd_store_failed(1) [OF True b p s surjective_pairing] show ?thesis by simp
    next
      case False
      then have ok: "Spec_ReplicationState (inst w) = Primary \<longrightarrow> deleteClusterDataInS3Stores env ?v1 = None"
        by simp
      from pfd_removal [OF True b ok surjective_pairing] show ?thesis by auto
    qed
  qed
qed

text \<open>
  Claim C10. For a group with a deletion timestamp whose desired state is neither
  Primary nor Secondary, or that has neither the sync nor the async mode enabled,
  \<^verbatim>\<open>processVRG\<close> stops at the validation: it reports the warning event and does
  nothing but log, report and write the status; the line that every entry of
  \<^verbatim>\<open>processForDeletion\<close> logs is not among its effects, no collaborator of the deletion
  is called, no update of the group is sent and the finalizers are what they were.
\<close>

theorem processVRG_invalid_never_deletes:
  assumes "\<not> IsZero (DeletionTimestamp (inst v))"
    and "(Spec_ReplicationState (inst v) \<noteq> Primary \<and> Spec_ReplicationState (inst v) \<noteq> Secondary) \<or>
         (Spec_Async_Mode (inst v) \<noteq> AsyncModeEnabled \<and> Spec_Sync_Mode (inst v) \<noteq> SyncModeEnabled)"
  shows "\<exists>res v'. processVRG env v = Inr ((res, None), v') \<and>
     RequeueAfter res = 0 \<and>
     Finalizers (inst v') = Finalizers (inst v) \<and>
     LogInfo ''Entering processing VolumeReplicationGroup for deletion'' \<notin> set (effectsSince v v') \<and>
     (\<forall>w. LogInfo ''Entering processing VolumeReplicationGroup for deletion'' \<in>
            set (effectsSince w (snd (processForDeletion env w)))) \<and>
     \<not> (\<exists>e \<in> set (effectsSince v v'). isApiUpdate e \<or> isDeletionCall e) \<and>
     (\<forall>e \<in> set (effectsSince v v'). isValidationPathEffect e) \<and>
     (\<exists>err. ReportIfNotPresent EventTypeWarning EventReasonValidationFailed (ErrorText err) \<in>
            set (effectsSince v v'))"
proof -
  have "\<exists>err logmsg msg. isValidationPathEffect (LogError logmsg) \<and> processVRG env v =
      Inr (validationFailed env err logmsg msg (logError ''Invalid request detected'' (initializeStatus env v)))"
  proof (cases "Spec_ReplicationState (inst v) \<noteq> Primary \<and> Spec_ReplicationState (inst v) \<noteq> Secondary")
    case True
    then have "processVRG env v =
           Inr (validationFailed env
                  (InvalidReplicationState (\<not> IsZero (DeletionTimestamp (inst v))) (Spec_ReplicationState (inst v)))
                  ''Failed to validate the spec state'' ''VolumeReplicationGroup state is invalid''
                  (logError ''Invalid request detected'' (initializeStatus env v)))"
      by (intro processVRG_state_rejected) simp_all
    moreover have "isValidationPathEffect (LogError ''Failed to validate the spec state'')" by simp
    ultimately show ?thesis by blast
  next
    case False
    with assms(2) have "processVRG env v =
           Inr (validationFailed env (NeitherSyncNorAsync (\<not> IsZero (DeletionTimestamp (inst v))))
                  ''Failed to validate the spec mode'' ''VolumeReplicationGroup mode is invalid''
                  (logError ''Invalid request detected'' (initializeStatus env v)))"
      by (intro processVRG_mode_rejected) auto
    moreover have "isValidationPathEffect (LogError ''Failed to validate the spec mode'')" by simp
    ultimately show ?thesis by blast
  qed
  then obtain err logmsg msg where l: "isValidationPathEffect (LogError logmsg)"
    and run: "processVRG env v =
      Inr (validationFailed env err logmsg msg (logError ''Invalid request detected'' (initializeStatus env v)))"
    by blast
  from processVRG_validation_path [OF run l]
  obtain res v' where f: "processVRG env v = Inr ((res, None), v')"
    "RequeueAfter res = 0"
    "ReportIfNotPresent EventTypeWarning EventReasonValidationFailed (ErrorText err) \<in> set (effectsSince v v')"
    "\<forall>e \<in> set (effectsSince v v'). isValidationPathEffect e"
    "Finalizers (inst v') = Finalizers (inst v)"
    by blast
  from f(4) validation_effect_is_not_deletion
  have n: "LogInfo ''Entering processing VolumeReplicationGroup for deletion'' \<notin> set (effectsSince v v')"
    "\<not> (\<exists>e \<in> set (effectsSince v v'). isApiUpdate e \<or> isDeletionCall e)"
    by blast+
  show ?thesis
    apply (rule exI [of _ res])
    apply (rule exI [of _ v'])
    using f n processForDeletion_marks_entry by blast
qed

theorem processVRG_invalid_never_deletes_witness:
  "\<exists>res v'. processVRG sampleEnv
       (sampleInstance (sampleVRG\<lparr>DeletionTimestamp := Some 5,
          Spec_ReplicationState := OtherReplicationState ''tertiary''\<rparr>)) = Inr ((res, None), v') \<and>
     Finalizers (inst v') = [vrgFinalizerName] \<and>
     LogInfo ''Entering processing VolumeReplicationGroup for deletion'' \<notin>
       set (effectsSince (sampleInstance (sampleVRG\<lparr>DeletionTimestamp := Some 5,
          Spec_ReplicationState := OtherReplicationState ''tertiary''\<rparr>)) v')"
proof -
  let ?v = "sampleInstance (sampleVRG\<lparr>DeletionTimestamp := Some 5,
          Spec_ReplicationState := OtherReplicationState ''tertiary''\<rparr>)"
  have 1: "\<not> IsZero (DeletionTimestamp (inst ?v))"
    by (simp add: sample_defs)
  have 2: "(Spec_ReplicationState (inst ?v) \<noteq> Primary \<and> Spec_ReplicationState (inst ?v) \<noteq> Secondary) \<or>
         (Spec_Async_Mode (inst ?v) \<noteq> AsyncModeEnabled \<and> Spec_Sync_Mode (inst ?v) \<noteq> SyncModeEnabled)"
    by (simp add: sample_defs)
  have 3: "Finalizers (inst ?v) = [vrgFinalizerName]"
    by (simp add: sampleInstance_def newVRGInstance_def sampleVRG_def)
  from processVRG_invalid_never_deletes [OF 1 2, of sampleEnv] 3 show ?thesis
    by (elim exE conjE) (intro exI conjI; simp)
qed


section \<open>Classification of the claims\<close>

subsection \<open>By the records of the status\<close>

lemma separatePVCUsingVRGStatus_fields:
  "inst (separatePVCUsingVRGStatus pvc ps v) = inst v"
  "effects (separatePVCUsingVRGStatus pvc ps v) = effects v"
  "replClassList (separatePVCUsingVRGStatus pvc ps v) = replClassList v"
  "vrcUpdated (separatePVCUsingVRGStatus pvc ps v) = vrcUpdated v"
  "savedInstanceStatus (separatePVCUsingVRGStatus pvc ps v) = savedInstanceStatus v"
  by (induction ps arbitrary: v; simp)+

lemma separatePVCUsingVRGStatus_volRep:
  "volRepPVCs (separatePVCUsingVRGStatus pvc ps v) =
     volRepPVCs v @
     replicate (length (filter (\<lambda>r. ppName r = pvcName pvc \<and> \<not> ProtectedByVolSync r) ps)) pvc"
  by (induction ps arbitrary: v) (simp_all add: replicate_append_same)

lemma separatePVCUsingVRGStatus_volSync:
  "volSyncPVCs (separatePVCUsingVRGStatus pvc ps v) =
     volSyncPVCs v @
     replicate (length (filter (\<lambda>r. ppName r = pvcName pvc \<and> ProtectedByVolSync r) ps)) pvc"
  by (induction ps arbitrary: v) (simp_all add: replicate_append_same)


lemma protectedPVCs_inst: "inst w = inst v \<Longrightarrow> protectedPVCs w = protectedPVCs v"
  by (simp add: protectedPVCs_def)

lemma separatePVCsUsingVRGStatus_volRep:
  "volRepPVCs (separatePVCsUsingVRGStatus pvcs v) =
     volRepPVCs v @
     concat (map (\<lambda>p. replicate
        (length (filter (\<lambda>r. ppName r = pvcName p \<and> \<not> ProtectedByVolSync r) (protectedPVCs v))) p) pvcs)"
proof (induction pvcs arbitrary: v)
  case Nil
  show ?case by simp
next
  case (Cons pvc pvcs)
  let ?w = "separatePVCUsingVRGStatus pvc (protectedPVCs v) v"
  have "protectedPVCs ?w = protectedPVCs v"
    by (rule protectedPVCs_inst) (simp add: separatePVCUsingVRGStatus_fields)
  then show ?case
    using Cons.IH [of ?w]
    by (simp add: separatePVCUsingVRGStatus_volRep protectedPVCs_def [of v])
qed

lemma separatePVCsUsingVRGStatus_volSync:
  "volSyncPVCs (separatePVCsUsingVRGStatus pvcs v) =
     volSyncPVCs v @
     concat (map (\<lambda>p. replicate
        (length (filter (\<lambda>r. ppName r = pvcName p \<and> ProtectedByVolSync r) (protectedPVCs v))) p) pvcs)"
proof (induction pvcs arbitrary: v)
  case Nil
  show ?case by simp
next
  case (Cons pvc pvcs)
  let ?w = "separatePVCUsingVRGStatus pvc (protectedPVCs v) v"
  have "protectedPVCs ?w = protectedPVCs v"
    by (rule protectedPVCs_inst) (simp add: separatePVCUsingVRGStatus_fields)
  then show ?case
    using Cons.IH [of ?w]
    by (simp add: separatePVCUsingVRGStatus_volSync protectedPVCs_def [of v])
qed

lemma set_concat_replicate:
  "set (concat (map (\<lambda>p. replicate (k p) p) xs)) = {p \<in> set xs. 0 < k p}"
  by (induction xs) auto

lemma recordedAs_count:
  "recordedAs flag ps pvc =
     (0 < length (filter (\<lambda>r. ppName r = pvcName pvc \<and> ProtectedByVolSync r = flag) ps))"
  by (auto simp: recordedAs_def filter_empty_conv)

lemma count_by_name_le_1:
  assumes "distinct (map ppName ps)"
  shows "length (filter (\<lambda>r. ppName r = n \<and> \<not> ProtectedByVolSync r) ps) +
         length (filter (\<lambda>r. ppName r = n \<and> ProtectedByVolSync r) ps) \<le> 1"
  using assms
proof (induction ps)
  case Nil
  show ?case by simp
next
  case (Cons r ps)
  have none: "filter (\<lambda>x. ppName x = ppName r \<and> Q x) ps = []" for Q
    using Cons.prems by (force simp: filter_empty_conv image_iff)
  from Cons show ?case by (auto simp: none)
qed

lemma concat_replicate_filter:
  assumes "\<And>p. k p \<le> (1::nat)"
  shows "concat (map (\<lambda>p. replicate (k p) p) xs) = filter (\<lambda>p. 0 < k p) xs"
proof (induction xs)
  case Nil
  show ?case by simp
next
  case (Cons x xs)
  have "k x = 0 \<or> k x = 1" using assms [of x] by arith
  with Cons show ?case by auto
qed

lemma mset_concat_replicate_le:
  assumes "\<And>p. a p + b p \<le> (1::nat)"
  shows "mset (concat (map (\<lambda>p. replicate (a p) p) xs)) + mset (concat (map (\<lambda>p. replicate (b p) p) xs))
         \<subseteq># mset xs"
proof (induction xs)
  case Nil
  show ?case by simp
next
  case (Cons x xs)
  have "(a x = 0 \<and> b x = 0) \<or> (a x = 1 \<and> b x = 0) \<or> (a x = 0 \<and> b x = 1)"
    using assms [of x] by arith
  with Cons show ?case
    by (auto intro: subset_mset.order_trans)
qed

subsection \<open>By the provisioner of the storage class\<close>

lemma separatePVCsUsingStorageClassProvisioner_success:
  assumes "separatePVCsUsingStorageClassProvisioner env pvcs v = Inr (None, v')"
  shows "volRepPVCs v' = volRepPVCs v @ filter (provisionedForVolRep env (replClassList v)) pvcs \<and>
         volSyncPVCs v' = volSyncPVCs v @ filter (\<lambda>p. \<not> provisionedForVolRep env (replClassList v) p) pvcs \<and>
         inst v' = inst v \<and> replClassList v' = replClassList v"
  using assms
proof (induction pvcs arbitrary: v)
  case Nil
  then show ?case by auto
next
  case (Cons pvc pvcs)
  from Cons.prems obtain n where n: "pvcStorageClassName pvc = Some n"
    by (cases "pvcStorageClassName pvc") auto
  from Cons.prems n obtain sc where sc: "api_Get_StorageClass env n = Inr sc"
    by (cases "api_Get_StorageClass env n") (auto simp: Let_def)
  let ?v1 = "emit (ApiGetStorageClass n) v"
  let ?w = "if replicationClassMatchFound sc (replClassList ?v1) then ?v1\<lparr>volRepPVCs := volRepPVCs ?v1 @ [pvc]\<rparr>
            else ?v1\<lparr>volSyncPVCs := volSyncPVCs ?v1 @ [pvc]\<rparr>"
  from Cons.prems n sc have run: "separatePVCsUsingStorageClassProvisioner env pvcs ?w = Inr (None, v')"
    by (simp add: Let_def)
  have p: "provisionedForVolRep env (replClassList v) pvc = replicationClassMatchFound sc (replClassList v)"
    by (simp add: provisionedForVolRep_def n sc)
  from Cons.IH [OF run] show ?case
    by (cases "replicationClassMatchFound sc (replClassList v)") (simp_all add: p)
qed


lemmas classify_defs =
  updatePVCList_def updatePVCListForAll_def updateReplicationClassList_def claimLists_def
  claimsEnv_def deletingVRG_def protected_def

subsection \<open>With VolSync disabled\<close>

text \<open>
  Claim C9. For a group with \<^verbatim>\<open>Spec.VolSync.Disabled\<close> set, whose claims the store
  lists, and a reconcile structure whose VolSync list is empty as \<^verbatim>\<open>Reconcile\<close> builds it:
  \<^verbatim>\<open>updatePVCList\<close> returns without error with every listed claim in the VolRep list
  and the VolSync list empty; it lists no replication class and gets no storage class,
  leaves the cached list of classes alone, and returns the same whatever the store
  would answer to those two calls.
\<close>

theorem updatePVCList_VolSync_disabled:
  assumes "Spec_VolSync_Disabled (inst v)"
    and "api_List_PVCs env (inst v) = Inr pvcs"
    and "volSyncPVCs v = []"
  shows "claimLists (updatePVCList env v) = Some (pvcs, []) \<and>
         (\<exists>v'. updatePVCList env v = Inr (None, v') \<and>
               \<not> (\<exists>e \<in> set (effectsSince v v'). isClassLookup e) \<and>
               replClassList v' = replClassList v \<and> vrcUpdated v' = vrcUpdated v) \<and>
         (\<forall>lc gs. updatePVCList (env\<lparr>api_List_ReplicationClasses := lc, api_Get_StorageClass := gs\<rparr>) v =
                  updatePVCList env v)"
  using assms by (simp add: updatePVCList_def claimLists_def Let_def)

theorem updatePVCList_VolSync_disabled_witness:
  "claimLists (updatePVCList
      (claimsEnv [samplePVC ''A'', samplePVC ''B''] [\<lparr>vrcName = ''vrc'', vrcProvisioner = ''csi''\<rparr>])
      (sampleInstance (sampleVRG\<lparr>Spec_VolSync_Disabled := True\<rparr>))) =
     Some ([samplePVC ''A'', samplePVC ''B''], [])"
proof -
  let ?env = "claimsEnv [samplePVC ''A'', samplePVC ''B''] [\<lparr>vrcName = ''vrc'', vrcProvisioner = ''csi''\<rparr>]"
  let ?v = "sampleInstance (sampleVRG\<lparr>Spec_VolSync_Disabled := True\<rparr>)"
  have 1: "Spec_VolSync_Disabled (inst ?v)" by (simp add: sample_defs)
  have 2: "api_List_PVCs ?env (inst ?v) = Inr [samplePVC ''A'', samplePVC ''B'']"
    by (simp add: claimsEnv_def)
  have 3: "volSyncPVCs ?v = []" by (simp add: sampleInstance_def newVRGInstance_def)
  from updatePVCList_VolSync_disabled [OF 1 2 3] show ?thesis by simp
qed

subsection \<open>With no replication class\<close>

text \<open>
  Claim C3, as amended. For a group that is not under deletion and has VolSync not
  disabled, whose claims the store lists, when the list of replication classes of this
  reconcile is empty (cached so, or listed so now) and the reconcile structure has both
  lists empty as \<^verbatim>\<open>Reconcile\<close> builds it: \<^verbatim>\<open>updatePVCList\<close> returns without error
  with every listed claim in the VolSync list and the VolRep list empty.
\<close>

theorem updatePVCList_no_replication_classes:
  assumes "\<not> Spec_VolSync_Disabled (inst v)"
    and "IsZero (DeletionTimestamp (inst v))"
    and "api_List_PVCs env (inst v) = Inr pvcs"
    and "(vrcUpdated v \<and> replClassList v = []) \<or>
         (\<not> vrcUpdated v \<and> api_List_ReplicationClasses env (inst v) = Inr [])"
    and "volRepPVCs v = []"
    and "volSyncPVCs v = []"
  shows "claimLists (updatePVCList env v) = Some ([], pvcs)"
  using assms
  by (auto simp add: updatePVCList_def updatePVCListForAll_def updateReplicationClassList_def
      claimLists_def Let_def)

text \<open>
  The claim as written holds for every group that is not under deletion. A Primary
  group with VolSync disabled, no replication class and three claims: the three are in
  the VolRep list and the VolSync list is empty.
\<close>

theorem updatePVCList_no_replication_classes_counterexample:
  "claimLists (updatePVCList
      (claimsEnv [samplePVC ''A'', samplePVC ''B'', samplePVC ''C''] [])
      (sampleInstance (sampleVRG\<lparr>Spec_VolSync_Disabled := True\<rparr>))) =
     Some ([samplePVC ''A'', samplePVC ''B'', samplePVC ''C''], []) \<and>
   api_List_ReplicationClasses (claimsEnv [samplePVC ''A'', samplePVC ''B'', samplePVC ''C''] [])
      (inst (sampleInstance (sampleVRG\<lparr>Spec_VolSync_Disabled := True\<rparr>))) = Inr [] \<and>
   IsZero (DeletionTimestamp (inst (sampleInstance (sampleVRG\<lparr>Spec_VolSync_Disabled := True\<rparr>)))) \<and>
   Spec_ReplicationState (inst (sampleInstance (sampleVRG\<lparr>Spec_VolSync_Disabled := True\<rparr>))) = Primary"
  by (simp add: classify_defs sample_defs update_defs Let_def)

theorem updatePVCList_no_replication_classes_witness:
  "claimLists (updatePVCList
      (claimsEnv [samplePVC ''A'', samplePVC ''B'', samplePVC ''C''] [])
      (sampleInstance sampleVRG)) =
     Some ([], [samplePVC ''A'', samplePVC ''B'', samplePVC ''C''])"
proof -
  let ?env = "claimsEnv [samplePVC ''A'', samplePVC ''B'', samplePVC ''C''] []"
  let ?v = "sampleInstance sampleVRG"
  have 1: "\<not> Spec_VolSync_Disabled (inst ?v)" and 2: "IsZero (DeletionTimestamp (inst ?v))"
    by (simp_all add: sample_defs)
  have 3: "api_List_PVCs ?env (inst ?v) = Inr [samplePVC ''A'', samplePVC ''B'', samplePVC ''C'']"
    by (simp add: claimsEnv_def)
  have 4: "(vrcUpdated ?v \<and> replClassList ?v = []) \<or>
         (\<not> vrcUpdated ?v \<and> api_List_ReplicationClasses ?env (inst ?v) = Inr [])"
    by (simp add: claimsEnv_def sampleInstance_def newVRGInstance_def)
  have 5: "volRepPVCs ?v = []" and 6: "volSyncPVCs ?v = []"
    by (simp_all add: sampleInstance_def newVRGInstance_def)
  from updatePVCList_no_replication_classes [OF 1 2 3 4 5 6] show ?thesis .
qed


subsection \<open>Under deletion\<close>

lemma deleting_run:
  assumes "\<not> Spec_VolSync_Disabled (inst v)"
    and "\<not> IsZero (DeletionTimestamp (inst v))"
    and "api_List_PVCs env (inst v) = Inr pvcs"
    and "vrcUpdated v \<or> api_List_ReplicationClasses env (inst v) = Inr classes"
  shows "\<exists>v3. inst v3 = inst v \<and> volRepPVCs v3 = volRepPVCs v \<and> volSyncPVCs v3 = volSyncPVCs v \<and>
     updatePVCList env v =
       Inr (None, logInfo ''Separated PVCs (%d) into VolRepPVCs (%d) and VolSyncPVCs (%d)''
                    (separatePVCsUsingVRGStatus pvcs v3))"
proof (cases "vrcUpdated v")
  case True
  let ?v3 = "logInfo ''Found %d PVCs using matching lables %v''
               (emit ApiListPVCs (logInfo ''Fetching PersistentVolumeClaims'' v))"
  show ?thesis
    by (rule exI [of _ ?v3])
      (use assms True in \<open>simp add: updatePVCList_def updatePVCListForAll_def Let_def\<close>)
next
  case False
  let ?v2 = "logInfo ''Found %d PVCs using matching lables %v''
               (emit ApiListPVCs (logInfo ''Fetching PersistentVolumeClaims'' v))"
  let ?v3 = "(logInfo ''Number of Replication Classes''
               ((emit ApiListReplicationClasses (logInfo ''Fetching VolumeReplicationClass'' ?v2))
                  \<lparr>replClassList := classes\<rparr>))\<lparr>vrcUpdated := True\<rparr>"
  show ?thesis
    by (rule exI [of _ ?v3])
      (use assms False in \<open>simp add: updatePVCList_def updatePVCListForAll_def
          updateReplicationClassList_def Let_def\<close>)
qed

lemma deleting_lists:
  assumes "inst v3 = inst v" and "volRepPVCs v3 = []" and "volSyncPVCs v3 = []"
  shows "set (volRepPVCs (separatePVCsUsingVRGStatus pvcs v3)) =
           {p \<in> set pvcs. recordedAs False (protectedPVCs v) p}"
    and "set (volSyncPVCs (separatePVCsUsingVRGStatus pvcs v3)) =
           {p \<in> set pvcs. recordedAs True (protectedPVCs v) p}"
    and "distinct (map ppName (protectedPVCs v)) \<Longrightarrow>
           volRepPVCs (separatePVCsUsingVRGStatus pvcs v3) = filter (recordedAs False (protectedPVCs v)) pvcs"
    and "distinct (map ppName (protectedPVCs v)) \<Longrightarrow>
           volSyncPVCs (separatePVCsUsingVRGStatus pvcs v3) = filter (recordedAs True (protectedPVCs v)) pvcs"
    and "distinct (map ppName (protectedPVCs v)) \<Longrightarrow>
           mset (volRepPVCs (separatePVCsUsingVRGStatus pvcs v3)) +
           mset (volSyncPVCs (separatePVCsUsingVRGStatus pvcs v3)) \<subseteq># mset pvcs"
proof -
  let ?a = "\<lambda>p. length (filter (\<lambda>r. ppName r = pvcName p \<and> \<not> ProtectedByVolSync r) (protectedPVCs v))"
  let ?b = "\<lambda>p. length (filter (\<lambda>r. ppName r = pvcName p \<and> ProtectedByVolSync r) (protectedPVCs v))"
  have prot: "protectedPVCs v3 = protectedPVCs v"
    by (rule protectedPVCs_inst) (rule assms(1))
  have rep: "volRepPVCs (separatePVCsUsingVRGStatus pvcs v3) = concat (map (\<lambda>p. replicate (?a p) p) pvcs)"
    by (simp add: separatePVCsUsingVRGStatus_volRep prot assms(2))
  have sync: "volSyncPVCs (separatePVCsUsingVRGStatus pvcs v3) = concat (map (\<lambda>p. replicate (?b p) p) pvcs)"
    by (simp add: separatePVCsUsingVRGStatus_volSync prot assms(3))
  have ra: "recordedAs False (protectedPVCs v) p = (0 < ?a p)" for p
    by (simp add: recordedAs_count)
  have rb: "recordedAs True (protectedPVCs v) p = (0 < ?b p)" for p
    by (simp add: recordedAs_count)
  show "set (volRepPVCs (separatePVCsUsingVRGStatus pvcs v3)) =
           {p \<in> set pvcs. recordedAs False (protectedPVCs v) p}"
    unfolding rep ra by (rule set_concat_replicate)
  show "set (volSyncPVCs (separatePVCsUsingVRGStatus pvcs v3)) =
           {p \<in> set pvcs. recordedAs True (protectedPVCs v) p}"
    unfolding sync rb by (rule set_concat_replicate)
  assume d: "distinct (map ppName (protectedPVCs v))"
  have le: "?a p + ?b p \<le> 1" for p
    by (rule count_by_name_le_1 [OF d])
  have la: "?a p \<le> 1" and lb: "?b p \<le> 1" for p
    using le [of p] by arith+
  show "volRepPVCs (separatePVCsUsingVRGStatus pvcs v3) = filter (recordedAs False (protectedPVCs v)) pvcs"
    unfolding rep ra by (rule concat_replicate_filter) (rule la)
  show "volSyncPVCs (separatePVCsUsingVRGStatus pvcs v3) = filter (recordedAs True (protectedPVCs v)) pvcs"
    unfolding sync rb by (rule concat_replicate_filter) (rule lb)
  show "mset (volRepPVCs (separatePVCsUsingVRGStatus pvcs v3)) +
           mset (volSyncPVCs (separatePVCsUsingVRGStatus pvcs v3)) \<subseteq># mset pvcs"
    unfolding rep sync by (rule mset_concat_replicate_le) (rule le)
qed

lemma recordedAs_name: "recordedAs flag ps p \<Longrightarrow> pvcName p \<in> ppName ` set ps"
  by (force simp: recordedAs_def image_iff)

text \<open>
  Claim C5, as amended. For a group under deletion with VolSync not disabled, whose claims
  and replication classes the store lists, and a reconcile structure with both lists
  empty as \<^verbatim>\<open>Reconcile\<close> builds it: \<^verbatim>\<open>updatePVCList\<close> returns without error; a listed
  claim is in the VolSync list exactly when a record of the status has its name and the
  VolSync flag, and in the VolRep list exactly when a record has its name without the
  flag; a listed claim whose name no record has is in neither; and when the records
  have distinct names each list is the listed claims so recorded, in their order.
\<close>

theorem updatePVCList_deleting_replays_status:
  assumes "\<not> Spec_VolSync_Disabled (inst v)"
    and "\<not> IsZero (DeletionTimestamp (inst v))"
    and "api_List_PVCs env (inst v) = Inr pvcs"
    and "vrcUpdated v \<or> api_List_ReplicationClasses env (inst v) = Inr classes"
    and "volRepPVCs v = []"
    and "volSyncPVCs v = []"
  shows "\<exists>rep sync. claimLists (updatePVCList env v) = Some (rep, sync) \<and>
     (\<forall>p. (p \<in> set sync) = (p \<in> set pvcs \<and> recordedAs True (protectedPVCs v) p)) \<and>
     (\<forall>p. (p \<in> set rep) = (p \<in> set pvcs \<and> recordedAs False (protectedPVCs v) p)) \<and>
     (\<forall>p. pvcName p \<notin> ppName ` set (protectedPVCs v) \<longrightarrow> p \<notin> set rep \<and> p \<notin> set sync) \<and>
     (distinct (map ppName (protectedPVCs v)) \<longrightarrow>
        rep = filter (recordedAs False (protectedPVCs v)) pvcs \<and>
        sync = filter (recordedAs True (protectedPVCs v)) pvcs)"
proof -
  from deleting_run [OF assms(1-4)] obtain v3 where
    v3: "inst v3 = inst v" "volRepPVCs v3 = volRepPVCs v" "volSyncPVCs v3 = volSyncPVCs v"
    and run: "updatePVCList env v =
       Inr (None, logInfo ''Separated PVCs (%d) into VolRepPVCs (%d) and VolSyncPVCs (%d)''
                    (separatePVCsUsingVRGStatus pvcs v3))"
    by blast
  let ?rep = "volRepPVCs (separatePVCsUsingVRGStatus pvcs v3)"
  let ?sync = "volSyncPVCs (separatePVCsUsingVRGStatus pvcs v3)"
  have e: "volRepPVCs v3 = []" "volSyncPVCs v3 = []"
    using v3 assms(5,6) by simp_all
  note l = deleting_lists [OF v3(1) e, of pvcs]
  have c: "claimLists (updatePVCList env v) = Some (?rep, ?sync)"
    by (simp add: run claimLists_def)
  have s: "\<forall>p. (p \<in> set ?sync) = (p \<in> set pvcs \<and> recordedAs True (protectedPVCs v) p)"
    by (simp add: l(2))
  have r: "\<forall>p. (p \<in> set ?rep) = (p \<in> set pvcs \<and> recordedAs False (protectedPVCs v) p)"
    by (simp add: l(1))
  have x: "\<forall>p. pvcName p \<notin> ppName ` set (protectedPVCs v) \<longrightarrow> p \<notin> set ?rep \<and> p \<notin> set ?sync"
    using r s recordedAs_name by blast
  have d: "distinct (map ppName (protectedPVCs v)) \<longrightarrow>
        ?rep = filter (recordedAs False (protectedPVCs v)) pvcs \<and>
        ?sync = filter (recordedAs True (protectedPVCs v)) pvcs"
    using l(3,4) by blast
  from c s r x d show ?thesis by blast
qed

text \<open>
  The claim as written holds for every group under deletion. With VolSync disabled, the
  records A to VolRep and B to VolSync and the claims A, B and C: the three are in
  the VolRep list, C among them, and the VolSync list is empty.
\<close>

theorem updatePVCList_deleting_replays_status_counterexample:
  "claimLists (updatePVCList
      (claimsEnv [samplePVC ''A'', samplePVC ''B'', samplePVC ''C''] [])
      (sampleInstance ((deletingVRG [protected ''A'' False, protected ''B'' True])
         \<lparr>Spec_VolSync_Disabled := True\<rparr>))) =
     Some ([samplePVC ''A'', samplePVC ''B'', samplePVC ''C''], []) \<and>
   \<not> IsZero (DeletionTimestamp (inst (sampleInstance
      ((deletingVRG [protected ''A'' False, protected ''B'' True])\<lparr>Spec_VolSync_Disabled := True\<rparr>))))"
  by (simp add: classify_defs sample_defs update_defs Let_def)

theorem updatePVCList_deleting_replays_status_witness:
  "claimLists (updatePVCList
      (claimsEnv [samplePVC ''A'', samplePVC ''B'', samplePVC ''C''] [])
      (sampleInstance (deletingVRG [protected ''A'' False, protected ''B'' True]))) =
     Some ([samplePVC ''A''], [samplePVC ''B''])"
proof -
  let ?env = "claimsEnv [samplePVC ''A'', samplePVC ''B'', samplePVC ''C''] []"
  let ?v = "sampleInstance (deletingVRG [protected ''A'' False, protected ''B'' True])"
  let ?ps = "[protected ''A'' False, protected ''B'' True]"
  have 1: "\<not> Spec_VolSync_Disabled (inst ?v)" and 2: "\<not> IsZero (DeletionTimestamp (inst ?v))"
    by (simp_all add: deletingVRG_def sample_defs)
  have 3: "api_List_PVCs ?env (inst ?v) = Inr [samplePVC ''A'', samplePVC ''B'', samplePVC ''C'']"
    by (simp add: claimsEnv_def)
  have 4: "vrcUpdated ?v \<or> api_List_ReplicationClasses ?env (inst ?v) = Inr []"
    by (simp add: claimsEnv_def)
  have 5: "volRepPVCs ?v = []" and 6: "volSyncPVCs ?v = []"
    by (simp_all add: sampleInstance_def newVRGInstance_def)
  have p: "protectedPVCs ?v = ?ps"
    by (simp add: protectedPVCs_def deletingVRG_def sample_defs)
  have d: "distinct (map ppName (protectedPVCs ?v))"
    unfolding p by (simp add: protected_def)
  have f: "filter (recordedAs False ?ps) [samplePVC ''A'', samplePVC ''B'', samplePVC ''C''] = [samplePVC ''A'']"
    "filter (recordedAs True ?ps) [samplePVC ''A'', samplePVC ''B'', samplePVC ''C''] = [samplePVC ''B'']"
    by (simp_all add: recordedAs_def protected_def samplePVC_def)
  from updatePVCList_deleting_replays_status [OF 1 2 3 4 5 6] d show ?thesis
    unfolding p f by auto
qed


subsection \<open>Every claim in at most one list\<close>

text \<open>The list of classes is settled before the claims are separated.\<close>

lemma class_step:
  assumes "(if \<not> vrcUpdated v2 then
              (case updateReplicationClassList env v2 of
                 (Some err, v3) \<Rightarrow>
                   (Some FailedToGetReplicationClassList,
                    logError ''Failed to get VolumeReplicationClass list'' v3)
               | (None, v3) \<Rightarrow> (None, v3\<lparr>vrcUpdated := True\<rparr>))
            else (None, v2)) = (None, v3)"
  shows "inst v3 = inst v2 \<and> volRepPVCs v3 = volRepPVCs v2 \<and> volSyncPVCs v3 = volSyncPVCs v2"
  using assms
  by (auto simp: updateReplicationClassList_def Let_def split: if_splits sum.splits)

lemma updatePVCList_classified:
  assumes run: "updatePVCList env v = Inr (None, v')"
    and list: "api_List_PVCs env (inst v) = Inr pvcs"
  shows "(Spec_VolSync_Disabled (inst v) \<and> volRepPVCs v' = pvcs \<and> volSyncPVCs v' = volSyncPVCs v) \<or>
         (\<not> Spec_VolSync_Disabled (inst v) \<and> \<not> IsZero (DeletionTimestamp (inst v)) \<and>
          (\<exists>v3. inst v3 = inst v \<and> volRepPVCs v3 = volRepPVCs v \<and> volSyncPVCs v3 = volSyncPVCs v \<and>
                volRepPVCs v' = volRepPVCs (separatePVCsUsingVRGStatus pvcs v3) \<and>
                volSyncPVCs v' = volSyncPVCs (separatePVCsUsingVRGStatus pvcs v3))) \<or>
         (\<not> Spec_VolSync_Disabled (inst v) \<and> IsZero (DeletionTimestamp (inst v)) \<and>
          volRepPVCs v' = volRepPVCs v \<and> volSyncPVCs v' = pvcs) \<or>
         (\<not> Spec_VolSync_Disabled (inst v) \<and> IsZero (DeletionTimestamp (inst v)) \<and>
          (\<exists>P. volRepPVCs v' = volRepPVCs v @ filter P pvcs \<and>
               volSyncPVCs v' = volSyncPVCs v @ filter (\<lambda>p. \<not> P p) pvcs))"
proof (cases "Spec_VolSync_Disabled (inst v)")
  case True
  with run list show ?thesis
    by (auto simp: updatePVCList_def Let_def)
next
  case False
  let ?v2 = "logInfo ''Found %d PVCs using matching lables %v''
               (emit ApiListPVCs (logInfo ''Fetching PersistentVolumeClaims'' v))"
  let ?step = "if \<not> vrcUpdated ?v2 then
              (case updateReplicationClassList env ?v2 of
                 (Some err, v3) \<Rightarrow>
                   (Some FailedToGetReplicationClassList,
                    logError ''Failed to get VolumeReplicationClass list'' v3)
               | (None, v3) \<Rightarrow> (None, v3\<lparr>vrcUpdated := True\<rparr>))
            else (None, ?v2)"
  obtain r v3 where step: "?step = (r, v3)" by (cases ?step)
  have all: "updatePVCList env v =
      (case (r, v3) of
         (Some err, v3) \<Rightarrow> Inr (Some err, v3)
       | (None, v3) \<Rightarrow>
           if \<not> IsZero (DeletionTimestamp (inst v3)) then
             Inr (None, logInfo ''Separated PVCs (%d) into VolRepPVCs (%d) and VolSyncPVCs (%d)''
                    (separatePVCsUsingVRGStatus pvcs v3))
           else if replClassList v3 = [] then
             Inr (None, logInfo ''No VolumeReplicationClass available. Using all PVCs with VolSync''
                    (v3\<lparr>volSyncPVCs := pvcs\<rparr>))
           else separatePVCsUsingStorageClassProvisioner env pvcs v3)"
    unfolding step [symmetric] using False list
    by (simp add: updatePVCList_def updatePVCListForAll_def Let_def)
  from all run have none: "r = None" by (cases r) auto
  from class_step [OF step [unfolded none]]
  have v3: "inst v3 = inst v" "volRepPVCs v3 = volRepPVCs v" "volSyncPVCs v3 = volSyncPVCs v"
    by simp_all
  show ?thesis
  proof (cases "IsZero (DeletionTimestamp (inst v))")
    case deleting: False
    with all run none v3 have "v' = logInfo ''Separated PVCs (%d) into VolRepPVCs (%d) and VolSyncPVCs (%d)''
                    (separatePVCsUsingVRGStatus pvcs v3)"
      by simp
    with False deleting v3 show ?thesis by auto
  next
    case True
    show ?thesis
    proof (cases "replClassList v3 = []")
      case empty: True
      with all run none v3 True have "v' = logInfo ''No VolumeReplicationClass available. Using all PVCs with VolSync''
                    (v3\<lparr>volSyncPVCs := pvcs\<rparr>)"
        by simp
      with False True v3 show ?thesis by simp
    next
      case classes: False
      with all run none v3 True have "separatePVCsUsingStorageClassProvisioner env pvcs v3 = Inr (None, v')"
        by simp
      from separatePVCsUsingStorageClassProvisioner_success [OF this] v3 False True
      show ?thesis by auto
    qed
  qed
qed

lemma mset_filter_partition: "mset (filter P xs) + mset (filter (\<lambda>p. \<not> P p) xs) = mset xs"
  by (induction xs) auto

text \<open>
  Claim C6, as amended. For a classification that returned without error over the
  claims the store listed, from a reconcile structure with both lists empty as
  \<^verbatim>\<open>Reconcile\<close> builds it, and records of protected claims with distinct names: no
  claim is in both lists; the two lists together, counted with multiplicity, are within
  the listed claims; a listed claim is in neither list only for a group under deletion
  (with VolSync not disabled) and a name that no record has; and for a group that is
  not under deletion, or has VolSync disabled, the two lists together are exactly the
  listed claims.
\<close>

theorem updatePVCList_partition:
  assumes "claimLists (updatePVCList env v) = Some (rep, sync)"
    and "api_List_PVCs env (inst v) = Inr pvcs"
    and "volRepPVCs v = []"
    and "volSyncPVCs v = []"
    and "distinct (map ppName (protectedPVCs v))"
  shows "set rep \<inter> set sync = {} \<and>
         mset rep + mset sync \<subseteq># mset pvcs \<and>
         (\<forall>p \<in> set pvcs. p \<notin> set rep \<and> p \<notin> set sync \<longrightarrow>
            \<not> IsZero (DeletionTimestamp (inst v)) \<and> \<not> Spec_VolSync_Disabled (inst v) \<and>
            pvcName p \<notin> ppName ` set (protectedPVCs v)) \<and>
         (IsZero (DeletionTimestamp (inst v)) \<or> Spec_VolSync_Disabled (inst v) \<longrightarrow>
            mset rep + mset sync = mset pvcs)"
proof -
  from assms(1) obtain v' where run: "updatePVCList env v = Inr (None, v')"
    and rep: "rep = volRepPVCs v'" and sync: "sync = volSyncPVCs v'"
    by (auto simp: claimLists_def split: sum.splits option.splits prod.splits)
  from updatePVCList_classified [OF run assms(2)]
  consider (disabled) "Spec_VolSync_Disabled (inst v)" "rep = pvcs" "sync = []"
    | (deleting) v3 where "\<not> Spec_VolSync_Disabled (inst v)" "\<not> IsZero (DeletionTimestamp (inst v))"
        "inst v3 = inst v" "volRepPVCs v3 = []" "volSyncPVCs v3 = []"
        "rep = volRepPVCs (separatePVCsUsingVRGStatus pvcs v3)"
        "sync = volSyncPVCs (separatePVCsUsingVRGStatus pvcs v3)"
    | (noclass) "\<not> Spec_VolSync_Disabled (inst v)" "IsZero (DeletionTimestamp (inst v))"
        "rep = []" "sync = pvcs"
    | (byclass) P where "\<not> Spec_VolSync_Disabled (inst v)" "IsZero (DeletionTimestamp (inst v))"
        "rep = filter P pvcs" "sync = filter (\<lambda>p. \<not> P p) pvcs"
    unfolding rep sync using assms(3,4) by auto
  then show ?thesis
  proof cases
    case disabled
    then show ?thesis by simp
  next
    case (deleting v3)
    note l = deleting_lists [OF deleting(3,4,5), of pvcs]
    have r: "rep = filter (recordedAs False (protectedPVCs v)) pvcs"
      and s: "sync = filter (recordedAs True (protectedPVCs v)) pvcs"
      using l(3,4) [OF assms(5)] deleting(6,7) by simp_all
    have m: "mset rep + mset sync \<subseteq># mset pvcs"
      using l(5) [OF assms(5)] deleting(6,7) by simp
    have both: "\<not> (recordedAs False (protectedPVCs v) p \<and> recordedAs True (protectedPVCs v) p)" for p
    proof
      assume "recordedAs False (protectedPVCs v) p \<and> recordedAs True (protectedPVCs v) p"
      then obtain r1 r2 where "r1 \<in> set (protectedPVCs v)" "r2 \<in> set (protectedPVCs v)"
        "ppName r1 = ppName r2" "ProtectedByVolSync r1 \<noteq> ProtectedByVolSync r2"
        by (auto simp: recordedAs_def)
      with assms(5) show False
        by (auto simp: distinct_map dest: inj_onD)
    qed
    have d: "set rep \<inter> set sync = {}"
      using both by (auto simp: r s)
    have x: "\<forall>p \<in> set pvcs. p \<notin> set rep \<and> p \<notin> set sync \<longrightarrow>
        pvcName p \<notin> ppName ` set (protectedPVCs v)"
    proof (intro ballI impI)
      fix p assume p: "p \<in> set pvcs" and n: "p \<notin> set rep \<and> p \<notin> set sync"
      then have no: "\<not> recordedAs False (protectedPVCs v) p" "\<not> recordedAs True (protectedPVCs v) p"
        by (simp_all add: r s)
      show "pvcName p \<notin> ppName ` set (protectedPVCs v)"
      proof
        assume "pvcName p \<in> ppName ` set (protectedPVCs v)"
        then obtain q where "q \<in> set (protectedPVCs v)" "ppName q = pvcName p" by auto
        then have "recordedAs (ProtectedByVolSync q) (protectedPVCs v) p"
          by (auto simp: recordedAs_def)
        with no show False by (cases "ProtectedByVolSync q") simp_all
      qed
    qed
    from d m x deleting(1,2) show ?thesis by blast
  next
    case noclass
    then show ?thesis by simp
  next
    case (byclass P)
    have d: "set rep \<inter> set sync = {}" by (auto simp: byclass)
    have m: "mset rep + mset sync = mset pvcs"
      unfolding byclass by (rule mset_filter_partition)
    have x: "\<forall>p \<in> set pvcs. \<not> (p \<notin> set rep \<and> p \<notin> set sync)"
      by (auto simp: byclass)
    from d m x show ?thesis by auto
  qed
qed

text \<open>
  The claim as written holds for every list of records. Under deletion, two records of
  the name A, one to VolRep and one to VolSync, and the claim A: the claim is in both
  lists.
\<close>

theorem updatePVCList_partition_counterexample:
  "claimLists (updatePVCList (claimsEnv [samplePVC ''A''] [])
      (sampleInstance (deletingVRG [protected ''A'' False, protected ''A'' True]))) =
     Some ([samplePVC ''A''], [samplePVC ''A''])"
  by (simp add: classify_defs sample_defs update_defs Let_def)

theorem updatePVCList_partition_witness:
  "set [samplePVC ''A''] \<inter> set [samplePVC ''B''] = {} \<and>
   mset [samplePVC ''A''] + mset [samplePVC ''B''] \<subseteq>#
     mset [samplePVC ''A'', samplePVC ''B'', samplePVC ''C''] \<and>
   claimLists (updatePVCList
      (claimsEnv [samplePVC ''A'', samplePVC ''B'', samplePVC ''C''] [])
      (sampleInstance (deletingVRG [protected ''A'' False, protected ''B'' True]))) =
     Some ([samplePVC ''A''], [samplePVC ''B''])"
proof -
  let ?env = "claimsEnv [samplePVC ''A'', samplePVC ''B'', samplePVC ''C''] []"
  let ?v = "sampleInstance (deletingVRG [protected ''A'' False, protected ''B'' True])"
  have 1: "claimLists (updatePVCList ?env ?v) = Some ([samplePVC ''A''], [samplePVC ''B''])"
    by (simp add: classify_defs sample_defs update_defs Let_def)
  have 2: "api_List_PVCs ?env (inst ?v) = Inr [samplePVC ''A'', samplePVC ''B'', samplePVC ''C'']"
    by (simp add: claimsEnv_def)
  have 3: "volRepPVCs ?v = []" and 4: "volSyncPVCs ?v = []"
    by (simp_all add: sampleInstance_def newVRGInstance_def)
  have 5: "distinct (map ppName (protectedPVCs ?v))"
    by (simp add: protectedPVCs_def deletingVRG_def protected_def sample_defs)
  from updatePVCList_partition [OF 1 2 3 4 5] 1 show ?thesis by blast
qed


section \<open>The invariant of a pass\<close>

lemma passInv_simps [simp]:
  "passInv Q g rs saved (logInfo m v) = (Q (LogInfo m) \<and> passInv Q g rs saved v)"
  "passInv Q g rs saved (logError m v) = (Q (LogError m) \<and> passInv Q g rs saved v)"
  "passInv Q g rs saved (emit e v) = (Q e \<and> passInv Q g rs saved v)"
  "passInv Q g rs saved (setStatus st v) = passInv Q g rs saved v"
  "passInv Q g rs saved (setConditions cs v) = passInv Q g rs saved v"
  "passInv Q g rs saved (setState s v) = passInv Q g rs saved v"
  "passInv Q g rs saved (setFinalizers fs v) = passInv Q g rs saved v"
  "passInv Q g rs saved (v\<lparr>volRepPVCs := a\<rparr>) = passInv Q g rs saved v"
  "passInv Q g rs saved (v\<lparr>volSyncPVCs := a\<rparr>) = passInv Q g rs saved v"
  "passInv Q g rs saved (v\<lparr>replClassList := c\<rparr>) = passInv Q g rs saved v"
  "passInv Q g rs saved (v\<lparr>vrcUpdated := u\<rparr>) = passInv Q g rs saved v"
  by (auto simp: passInv_def)

lemma passInv_same:
  assumes "passInv Q g rs saved v"
    and "effects v' = effects v" "Generation (inst v') = Generation (inst v)"
    and "Spec_ReplicationState (inst v') = Spec_ReplicationState (inst v)"
    and "savedInstanceStatus v' = savedInstanceStatus v"
  shows "passInv Q g rs saved v'"
  using assms by (simp add: passInv_def)





















section \<open>What a pass leaves in the store\<close>

subsection \<open>The status a pass computes is settled\<close>







subsection \<open>The invariant through the methods that write the status\<close>







subsection \<open>The stored group after a pass\<close>






section \<open>A pass over a group on which nothing is to change\<close>




lemma quietAt_simps [simp]:
  "quietAt vrg (logInfo m v) = quietAt vrg v"
  "quietAt vrg (logError m v) = quietAt vrg v"
  "quietAt vrg (emit e v) = (\<not> isApiStatusUpdate e \<and> quietAt vrg v)"
  "quietAt vrg (setFinalizers fs v) = quietAt vrg v"
  by (auto simp: quietAt_def)

lemma quietAt_passInv:
  assumes "passInv (\<lambda>e. \<not> isApiStatusUpdate e) (Generation vrg) (Spec_ReplicationState vrg) (Status vrg) v'"
    and "Status (inst v') = Status vrg"
  shows "quietAt vrg v'"
  using assms by (simp add: quietAt_def)

subsection \<open>What the hypothesis gives\<close>





subsection \<open>The status write finds nothing to update\<close>






subsection \<open>The steps before the status write change nothing\<close>








subsection \<open>Primary, Secondary and the whole pass\<close>









section \<open>Reconciling twice\<close>

subsection \<open>Two passes in the small cluster\<close>














subsection \<open>The status is written when it changed, and only then\<close>



end
